theory Spec2Isabelle
  imports Complex_Main "HOL-Library.AList"
begin

section \<open>JavaScript values\<close>

text \<open>
  A JavaScript number is not-a-number, an infinity or a finite value. The values that
  travel in request parameters are scalars: undefined, null, booleans, numbers, strings.
  An object literal is the list of its entries in insertion order.
\<close>

datatype jsnum = NaN | PosInf | NegInf | Fin real

datatype jsval = JUndefined | JNull | JBool bool | JNum jsnum | JStr string

type_synonym jsobject = "(string \<times> jsval) list"

fun js_truthy :: "jsval \<Rightarrow> bool" where
  "js_truthy JUndefined = False"
| "js_truthy JNull = False"
| "js_truthy (JBool b) = b"
| "js_truthy (JNum n) = (n \<noteq> NaN \<and> n \<noteq> Fin 0)"
| "js_truthy (JStr s) = (s \<noteq> [])"

text \<open>\<open>obj.key\<close>: a missing property reads as undefined.\<close>

definition js_get :: "jsobject \<Rightarrow> string \<Rightarrow> jsval" where
  "js_get obj k = (case map_of obj k of None \<Rightarrow> JUndefined | Some v \<Rightarrow> v)"

text \<open>\<open>obj.key = v\<close> keeps the position of an existing key and appends a new one.\<close>

definition js_set :: "string \<Rightarrow> jsval \<Rightarrow> jsobject \<Rightarrow> jsobject" where
  "js_set k v obj = AList.update k v obj"

text \<open>\<open>{ ...a, ...b }\<close>: the entries of \<open>b\<close> are assigned over those of \<open>a\<close>.\<close>

definition js_spread :: "jsobject \<Rightarrow> jsobject \<Rightarrow> jsobject" where
  "js_spread a b = fold (\<lambda>(k, v). AList.update k v) b a"

text \<open>\<open>delete obj[key]\<close> for every key whose value is undefined.\<close>

definition delete_undefined :: "jsobject \<Rightarrow> jsobject" where
  "delete_undefined obj = filter (\<lambda>(k, v). v \<noteq> JUndefined) obj"

text \<open>
  \<open>parseFloat\<close>: the argument is converted to a string first, so undefined, null and the
  booleans give NaN, as does the empty string; a number is read back as itself. How a
  non-empty string is read is the parameter \<open>parse\<close>.
\<close>

definition parseFloat :: "(string \<Rightarrow> jsnum) \<Rightarrow> jsval \<Rightarrow> jsnum" where
  "parseFloat parse v =
     (case v of
        JNum n \<Rightarrow> n
      | JStr s \<Rightarrow> (if s = [] then NaN else parse s)
      | _ \<Rightarrow> NaN)"

definition isNaN :: "jsnum \<Rightarrow> bool" where
  "isNaN n = (n = NaN)"

text \<open>Division of a number by a positive finite constant.\<close>

fun js_div_by :: "jsnum \<Rightarrow> real \<Rightarrow> jsnum" where
  "js_div_by NaN d = NaN"
| "js_div_by PosInf d = PosInf"
| "js_div_by NegInf d = NegInf"
| "js_div_by (Fin r) d = Fin (r / d)"

text \<open>
  The text a value is sent as. The decimal text of a number is kept symbolic
  (\<open>SentNum n\<close> stands for the string of \<open>n\<close>, which is never empty).
  \<open>toString\<close> on undefined or null raises a TypeError: \<open>None\<close>.
\<close>

datatype sent = SentNum jsnum | SentStr string

fun js_toString :: "jsval \<Rightarrow> sent option" where
  "js_toString JUndefined = None"
| "js_toString JNull = None"
| "js_toString (JBool b) = Some (SentStr (if b then ''true'' else ''false''))"
| "js_toString (JNum n) = Some (SentNum n)"
| "js_toString (JStr s) = Some (SentStr s)"

type_synonym query = "(string \<times> sent) list"

section \<open>Double-precision arithmetic\<close>

text \<open>
  A JavaScript number is an IEEE 754 double. Every result of \<open>+\<close>, \<open>-\<close>, \<open>*\<close>, \<open>/\<close> and
  \<open>Math.sqrt\<close> is the exact result rounded to the nearest double, a tie going to the even
  significand: 53 significant bits, the exponent of the leading bit from -1022 (below
  that the spacing stays that of the smallest normal numbers) to 1023, and an infinity
  when the rounded magnitude reaches 2 to the 1024. The two zeros of the format are one
  value here.
\<close>

definition round_even :: "real \<Rightarrow> int" where
  "round_even y =
     (let f = \<lfloor>y\<rfloor>; d = y - of_int f in
      if d < 1 / 2 then f
      else if 1 / 2 < d then f + 1
      else if even f then f else f + 1)"

text \<open>The exponent of the spacing of the doubles around \<open>x\<close>.\<close>

definition ulp_exponent :: "real \<Rightarrow> int" where
  "ulp_exponent x = max (- 1022) \<lfloor>log 2 \<bar>x\<bar>\<rfloor> - 52"

definition to_double :: "real \<Rightarrow> jsnum" where
  "to_double x =
     (if x = 0 then Fin 0
      else (let u = 2 powi ulp_exponent x;
                y = of_int (round_even (x / u)) * u
            in if 2 ^ 1024 \<le> \<bar>y\<bar> then (if 0 < x then PosInf else NegInf) else Fin y))"

fun js_neg :: "jsnum \<Rightarrow> jsnum" where
  "js_neg NaN = NaN"
| "js_neg PosInf = NegInf"
| "js_neg NegInf = PosInf"
| "js_neg (Fin x) = Fin (- x)"

fun js_add :: "jsnum \<Rightarrow> jsnum \<Rightarrow> jsnum" where
  "js_add (Fin x) (Fin y) = to_double (x + y)"
| "js_add NaN b = NaN"
| "js_add a NaN = NaN"
| "js_add PosInf NegInf = NaN"
| "js_add NegInf PosInf = NaN"
| "js_add PosInf b = PosInf"
| "js_add NegInf b = NegInf"
| "js_add a PosInf = PosInf"
| "js_add a NegInf = NegInf"

fun js_sub :: "jsnum \<Rightarrow> jsnum \<Rightarrow> jsnum" where
  "js_sub (Fin x) (Fin y) = to_double (x - y)"
| "js_sub NaN b = NaN"
| "js_sub a NaN = NaN"
| "js_sub PosInf PosInf = NaN"
| "js_sub NegInf NegInf = NaN"
| "js_sub PosInf b = PosInf"
| "js_sub NegInf b = NegInf"
| "js_sub a PosInf = NegInf"
| "js_sub a NegInf = PosInf"

fun js_mul :: "jsnum \<Rightarrow> jsnum \<Rightarrow> jsnum" where
  "js_mul (Fin x) (Fin y) = to_double (x * y)"
| "js_mul NaN b = NaN"
| "js_mul a NaN = NaN"
| "js_mul (Fin x) PosInf = (if x = 0 then NaN else if 0 < x then PosInf else NegInf)"
| "js_mul (Fin x) NegInf = (if x = 0 then NaN else if 0 < x then NegInf else PosInf)"
| "js_mul PosInf (Fin y) = (if y = 0 then NaN else if 0 < y then PosInf else NegInf)"
| "js_mul NegInf (Fin y) = (if y = 0 then NaN else if 0 < y then NegInf else PosInf)"
| "js_mul PosInf PosInf = PosInf"
| "js_mul PosInf NegInf = NegInf"
| "js_mul NegInf PosInf = NegInf"
| "js_mul NegInf NegInf = PosInf"

text \<open>Division; a zero divisor counts as the positive zero.\<close>

fun js_div :: "jsnum \<Rightarrow> jsnum \<Rightarrow> jsnum" where
  "js_div (Fin x) (Fin y) =
     (if y = 0 then (if x = 0 then NaN else if 0 < x then PosInf else NegInf)
      else to_double (x / y))"
| "js_div NaN b = NaN"
| "js_div a NaN = NaN"
| "js_div (Fin x) PosInf = Fin 0"
| "js_div (Fin x) NegInf = Fin 0"
| "js_div PosInf (Fin y) = (if 0 \<le> y then PosInf else NegInf)"
| "js_div NegInf (Fin y) = (if 0 \<le> y then NegInf else PosInf)"
| "js_div PosInf PosInf = NaN"
| "js_div PosInf NegInf = NaN"
| "js_div NegInf PosInf = NaN"
| "js_div NegInf NegInf = NaN"

fun Math_sqrt :: "jsnum \<Rightarrow> jsnum" where
  "Math_sqrt NaN = NaN"
| "Math_sqrt PosInf = PosInf"
| "Math_sqrt NegInf = NaN"
| "Math_sqrt (Fin x) = (if x < 0 then NaN else to_double (sqrt x))"

text \<open>\<open>Math.round\<close>: the nearest integer, a half going up.\<close>

fun Math_round :: "jsnum \<Rightarrow> jsnum" where
  "Math_round (Fin x) = Fin (of_int \<lfloor>x + 1 / 2\<rfloor>)"
| "Math_round a = a"

text \<open>\<open>Math.PI\<close>: the double nearest to pi, 3.141592653589793.\<close>

definition Math_PI :: jsnum where
  "Math_PI = Fin (884279719003555 / 281474976710656)"


text \<open>
  \<open>Math.sin\<close>, \<open>Math.cos\<close> and \<open>Math.atan2\<close> are approximations that the language leaves
  to the platform; the distance functions take them as a parameter.
\<close>

record platform_math =
  Math_sin :: "jsnum \<Rightarrow> jsnum"
  Math_cos :: "jsnum \<Rightarrow> jsnum"
  Math_atan2 :: "jsnum \<Rightarrow> jsnum \<Rightarrow> jsnum"

section \<open>Distance calculator (services/googleMaps.js, services/mockGoogleMaps.js)\<close>

text \<open>
  The value \<open>a\<close> of the Haversine formula, computed step by step as the source writes it;
  the three copies in the source share it.
\<close>

definition haversine_a :: "platform_math \<Rightarrow> jsnum \<Rightarrow> jsnum \<Rightarrow> jsnum \<Rightarrow> jsnum \<Rightarrow> jsnum" where
  "haversine_a M lat1 lng1 lat2 lng2 =
     (let phi1 = js_div (js_mul lat1 Math_PI) (Fin 180);
          phi2 = js_div (js_mul lat2 Math_PI) (Fin 180);
          deltaPhi = js_div (js_mul (js_sub lat2 lat1) Math_PI) (Fin 180);
          deltaLambda = js_div (js_mul (js_sub lng2 lng1) Math_PI) (Fin 180)
      in js_add
           (js_mul (Math_sin M (js_div deltaPhi (Fin 2))) (Math_sin M (js_div deltaPhi (Fin 2))))
           (js_mul
              (js_mul (js_mul (Math_cos M phi1) (Math_cos M phi2))
                 (Math_sin M (js_div deltaLambda (Fin 2))))
              (Math_sin M (js_div deltaLambda (Fin 2)))))"

text \<open>\<open>googleMapsService.calculateDistance\<close>: metres, rounded to an integer.\<close>

definition calculateDistance :: "platform_math \<Rightarrow> jsnum \<Rightarrow> jsnum \<Rightarrow> jsnum \<Rightarrow> jsnum \<Rightarrow> jsnum" where
  "calculateDistance M lat1 lng1 lat2 lng2 =
     (let R = Fin 6371000;
          a = haversine_a M lat1 lng1 lat2 lng2;
          c = js_mul (Fin 2) (Math_atan2 M (Math_sqrt a) (Math_sqrt (js_sub (Fin 1) a)))
      in Math_round (js_mul R c))"

text \<open>\<open>MockGoogleMapsService.calculateDistance\<close>: the same formula, not rounded.\<close>

definition mock_calculateDistance :: "platform_math \<Rightarrow> jsnum \<Rightarrow> jsnum \<Rightarrow> jsnum \<Rightarrow> jsnum \<Rightarrow> jsnum" where
  "mock_calculateDistance M lat1 lng1 lat2 lng2 =
     (let R = Fin 6371000;
          a = haversine_a M lat1 lng1 lat2 lng2;
          c = js_mul (Fin 2) (Math_atan2 M (Math_sqrt a) (Math_sqrt (js_sub (Fin 1) a)))
      in js_mul R c)"

section \<open>Request parameters of fetchBusinesses (hooks/useBusinesses.js)\<close>

text \<open>
  The body of the \<open>forEach\<close> over \<open>Object.entries(params)\<close>: one entry is appended to
  the query or skipped. \<open>None\<close> is an exception thrown by the body (\<open>toString\<close> on
  undefined or null), which the test before the call rules out.
\<close>

definition append_param :: "(string \<Rightarrow> jsnum) \<Rightarrow> query \<Rightarrow> string \<times> jsval \<Rightarrow> query option" where
  "append_param parse q e =
     (let key = fst e; value = snd e in
      if key = ''latitude'' \<or> key = ''longitude'' then
        (let num = parseFloat parse value in
         if \<not> isNaN num then Some (q @ [(key, SentNum num)]) else Some q)
      else if value \<noteq> JNull \<and> value \<noteq> JUndefined \<and> value \<noteq> JStr [] then
        (case js_toString value of
           None \<Rightarrow> None
         | Some t \<Rightarrow> Some (q @ [(key, t)]))
      else Some q)"

fun forEach_params :: "(string \<Rightarrow> jsnum) \<Rightarrow> jsobject \<Rightarrow> query \<Rightarrow> query option" where
  "forEach_params parse [] q = Some q"
| "forEach_params parse (e # es) q =
     (case append_param parse q e of
        None \<Rightarrow> None
      | Some q' \<Rightarrow> forEach_params parse es q')"

definition queryParams :: "(string \<Rightarrow> jsnum) \<Rightarrow> jsobject \<Rightarrow> query option" where
  "queryParams parse params = forEach_params parse params []"

text \<open>
  When a sent text \<open>t\<close> under key \<open>k\<close> comes from the parameter value \<open>v\<close>: the value is
  not undefined, null or the empty string, the text is not empty, and it is the number the
  value parses to (latitude, longitude) or the text of the value (every other key).
\<close>

definition sent_value_of :: "(string \<Rightarrow> jsnum) \<Rightarrow> string \<Rightarrow> jsval \<Rightarrow> sent \<Rightarrow> bool" where
  "sent_value_of parse k v t =
     (v \<noteq> JUndefined \<and> v \<noteq> JNull \<and> v \<noteq> JStr [] \<and> t \<noteq> SentStr [] \<and>
      (if k = ''latitude'' \<or> k = ''longitude''
       then parseFloat parse v \<noteq> NaN \<and> t = SentNum (parseFloat parse v)
       else js_toString v = Some t))"

section \<open>Hook state\<close>

text \<open>
  Each hook keeps its state in \<open>useState\<close> cells; a call of a setter is an update of the
  record. Every hook has \<open>loading\<close> and \<open>error\<close>; the list hooks add \<open>total\<close> and
  \<open>hasMore\<close> and their result set.
\<close>

record business =
  business_id :: nat
  business_name :: string
  formatted_address :: string
  latitude :: jsval
  longitude :: jsval

type_synonym store = business

record category_summary =
  category_key :: string
  category_name :: string
  category_count :: nat

record hook_base =
  loading :: bool
  error :: "string option"

record fetch_state = hook_base +
  total :: nat
  hasMore :: bool

record stores_state = fetch_state +
  stores :: "store list"

record businesses_state = fetch_state +
  businesses :: "business list"
  categories :: "category_summary list"

record geo_position =
  lat :: real
  lng :: real
  accuracy :: real

record geolocation_state = hook_base +
  location :: "geo_position option"

text \<open>The result of a \<open>try\<close> block: it threw an error with a message, or it completed.\<close>

datatype 'a attempt = Threw string | Returned 'a

text \<open>
  What \<open>fetch\<close> and \<open>response.json()\<close> can do: \<open>fetch\<close> rejects (no response), or
  resolves to a response with its \<open>ok\<close> flag and status, whose body fails to parse or
  parses to the data.
\<close>

datatype 'd json_outcome = JsonRejected string | JsonData 'd

datatype 'd fetch_outcome = FetchRejected string | HttpResponse bool nat "'d json_outcome"

text \<open>The decimal text of a status code, as a template literal prints it.\<close>

function nat_to_string :: "nat \<Rightarrow> string" where
  "nat_to_string n =
     (if n < 10 then [''0123456789'' ! n]
      else nat_to_string (n div 10) @ [''0123456789'' ! (n mod 10)])"
  by pat_completeness auto
termination
  by (relation "measure (\<lambda>n. n)") auto

declare nat_to_string.simps [simp del]

section \<open>useBusinesses (hooks/useBusinesses.js)\<close>

text \<open>The JSON body of \<open>GET /api/businesses\<close>; a field can be missing.\<close>

record businesses_data =
  data_businesses :: "business list option"
  data_total :: "nat option"
  data_has_more :: "bool option"

text \<open>\<open>data.businesses || []\<close>: the page a response carries.\<close>

definition response_page :: "businesses_data \<Rightarrow> business list" where
  "response_page data = (case data_businesses data of None \<Rightarrow> [] | Some bs \<Rightarrow> bs)"

text \<open>
  An operation is modelled with the two states it shows: the state in which its request
  is issued (after the setter calls that come before the \<open>await\<close>) and the state in which
  it ends. \<open>fetchCategories\<close> opens with \<open>setError(null)\<close> alone.
\<close>

definition fetchCategories_run ::
  "category_summary list option fetch_outcome \<Rightarrow> businesses_state \<Rightarrow>
   businesses_state \<times> businesses_state" where
  "fetchCategories_run outcome s0 =
     (let s = s0\<lparr>error := None\<rparr> in
      (s,
       case outcome of
         FetchRejected message \<Rightarrow> s\<lparr>error := Some message\<rparr>
       | HttpResponse ok status body \<Rightarrow>
           if \<not> ok then s\<lparr>error := Some (''Failed to fetch categories: '' @ nat_to_string status)\<rparr>
           else (case body of
                   JsonRejected message \<Rightarrow> s\<lparr>error := Some message\<rparr>
                 | JsonData cats \<Rightarrow>
                     s\<lparr>categories := (case cats of None \<Rightarrow> [] | Some cs \<Rightarrow> cs)\<rparr>)))"

definition fetchCategories ::
  "category_summary list option fetch_outcome \<Rightarrow> businesses_state \<Rightarrow> businesses_state" where
  "fetchCategories outcome s0 = snd (fetchCategories_run outcome s0)"

text \<open>The two setter calls that open \<open>fetchBusinesses\<close>, before the request is built.\<close>

definition fetchBusinesses_begin :: "businesses_state \<Rightarrow> businesses_state" where
  "fetchBusinesses_begin s0 = s0\<lparr>loading := True, error := None\<rparr>"

text \<open>
  The rest of the \<open>try\<close> block, from the state \<open>s\<close> in which the request is issued. Every
  \<open>throw\<close> comes before the first setter call of the success path.
\<close>

definition fetchBusinesses_try ::
  "(string \<Rightarrow> jsnum) \<Rightarrow> jsobject \<Rightarrow> businesses_data fetch_outcome \<Rightarrow> businesses_state \<Rightarrow>
   (businesses_state \<times> businesses_data) attempt" where
  "fetchBusinesses_try parse params outcome s =
     (case queryParams parse params of
        None \<Rightarrow> Threw ''toString is not a function''
      | Some q \<Rightarrow>
          (case outcome of
             FetchRejected message \<Rightarrow> Threw message
           | HttpResponse ok status body \<Rightarrow>
               if \<not> ok then Threw (''Failed to fetch businesses: '' @ nat_to_string status)
               else (case body of
                       JsonRejected message \<Rightarrow> Threw message
                     | JsonData data \<Rightarrow>
                         (let page = response_page data;
                              s1 = (if js_get params ''offset'' = JNum (Fin 0) \<or>
                                       \<not> js_truthy (js_get params ''offset'')
                                    then s\<lparr>businesses := page\<rparr>
                                    else s\<lparr>businesses := businesses s @ page\<rparr>);
                              s2 = s1\<lparr>total := (case data_total data of None \<Rightarrow> 0 | Some t \<Rightarrow> t),
                                      hasMore := (case data_has_more data of None \<Rightarrow> False | Some h \<Rightarrow> h)\<rparr>
                          in Returned (s2, data)))))"

text \<open>
  \<open>fetchBusinesses\<close>: the new state and the value returned. The \<open>catch\<close> block sets
  \<open>error\<close> and returns an empty result; the \<open>finally\<close> block clears \<open>loading\<close>.
\<close>

definition fetchBusinesses ::
  "(string \<Rightarrow> jsnum) \<Rightarrow> jsobject \<Rightarrow> businesses_data fetch_outcome \<Rightarrow> businesses_state \<Rightarrow>
   businesses_state \<times> businesses_data" where
  "fetchBusinesses parse params outcome s0 =
     (let s = fetchBusinesses_begin s0 in
      case fetchBusinesses_try parse params outcome s of
        Returned (s', data) \<Rightarrow> (s'\<lparr>loading := False\<rparr>, data)
      | Threw message \<Rightarrow>
          (s\<lparr>error := Some message, loading := False\<rparr>,
           \<lparr>data_businesses = Some [], data_total = Some 0, data_has_more = Some False\<rparr>))"

definition searchBusinesses ::
  "(string \<Rightarrow> jsnum) \<Rightarrow> jsobject \<Rightarrow> businesses_data fetch_outcome \<Rightarrow> businesses_state \<Rightarrow>
   businesses_state \<times> businesses_data" where
  "searchBusinesses parse searchParams =
     (let params = js_spread [(''offset'', JNum (Fin 0)), (''limit'', JNum (Fin 50))] searchParams
      in fetchBusinesses parse params)"

text \<open>The parameter object \<open>getNearbyBusinesses\<close> builds (defaults: radius 5, category null).\<close>

definition nearby_params :: "jsval \<Rightarrow> jsval \<Rightarrow> jsval \<Rightarrow> jsval \<Rightarrow> jsobject" where
  "nearby_params lat' lng' radius category =
     (let radius' = (if radius = JUndefined then JNum (Fin 5) else radius);
          category' = (if category = JUndefined then JNull else category);
          params = [(''latitude'', lat'), (''longitude'', lng'), (''radius'', radius'),
                    (''limit'', JNum (Fin 100)), (''offset'', JNum (Fin 0))]
      in if js_truthy category' then js_set ''category'' category' params else params)"

definition getNearbyBusinesses ::
  "(string \<Rightarrow> jsnum) \<Rightarrow> jsval \<Rightarrow> jsval \<Rightarrow> jsval \<Rightarrow> jsval \<Rightarrow>
   businesses_data fetch_outcome \<Rightarrow> businesses_state \<Rightarrow> businesses_state \<times> businesses_data" where
  "getNearbyBusinesses parse lat' lng' radius category =
     fetchBusinesses parse (nearby_params lat' lng' radius category)"

text \<open>
  The two states of \<open>fetchBusinesses\<close> and of the operations that delegate to it: the
  state in which \<open>fetch\<close> is called, and the state after the \<open>finally\<close> block.
\<close>

definition fetchBusinesses_run ::
  "(string \<Rightarrow> jsnum) \<Rightarrow> jsobject \<Rightarrow> businesses_data fetch_outcome \<Rightarrow> businesses_state \<Rightarrow>
   businesses_state \<times> businesses_state" where
  "fetchBusinesses_run parse params outcome s0 =
     (let s = s0\<lparr>loading := True, error := None\<rparr> in
      (s,
       case fetchBusinesses_try parse params outcome s of
         Returned (s', data) \<Rightarrow> s'\<lparr>loading := False\<rparr>
       | Threw message \<Rightarrow> s\<lparr>error := Some message, loading := False\<rparr>))"

definition searchBusinesses_run ::
  "(string \<Rightarrow> jsnum) \<Rightarrow> jsobject \<Rightarrow> businesses_data fetch_outcome \<Rightarrow> businesses_state \<Rightarrow>
   businesses_state \<times> businesses_state" where
  "searchBusinesses_run parse searchParams =
     (let params = js_spread [(''offset'', JNum (Fin 0)), (''limit'', JNum (Fin 50))] searchParams
      in fetchBusinesses_run parse params)"

definition getNearbyBusinesses_run ::
  "(string \<Rightarrow> jsnum) \<Rightarrow> jsval \<Rightarrow> jsval \<Rightarrow> jsval \<Rightarrow> jsval \<Rightarrow>
   businesses_data fetch_outcome \<Rightarrow> businesses_state \<Rightarrow> businesses_state \<times> businesses_state" where
  "getNearbyBusinesses_run parse lat' lng' radius category =
     fetchBusinesses_run parse (nearby_params lat' lng' radius category)"

text \<open>
  \<open>refreshBusinesses\<close>: the state at its request, and the state and result of the call
  itself. It clears the error, posts the refresh, and on failure sets the error and
  rethrows. The \<open>fetchBusinesses\<close> it schedules two seconds after a success is a later
  operation of its own.
\<close>

definition refreshBusinesses_run ::
  "'d fetch_outcome \<Rightarrow> businesses_state \<Rightarrow> businesses_state \<times> (businesses_state \<times> 'd attempt)" where
  "refreshBusinesses_run outcome s0 =
     (let s = s0\<lparr>error := None\<rparr> in
      (s,
       case outcome of
         FetchRejected message \<Rightarrow> (s\<lparr>error := Some message\<rparr>, Threw message)
       | HttpResponse ok status body \<Rightarrow>
           if \<not> ok
           then (s\<lparr>error := Some (''Failed to refresh businesses: '' @ nat_to_string status)\<rparr>,
                 Threw (''Failed to refresh businesses: '' @ nat_to_string status))
           else (case body of
                   JsonRejected message \<Rightarrow> (s\<lparr>error := Some message\<rparr>, Threw message)
                 | JsonData data \<Rightarrow> (s, Returned data))))"

definition refreshBusinesses ::
  "'d fetch_outcome \<Rightarrow> businesses_state \<Rightarrow> businesses_state \<times> 'd attempt" where
  "refreshBusinesses outcome s0 = snd (refreshBusinesses_run outcome s0)"

text \<open>\<open>getBusinessStats\<close> calls no setter: it returns the statistics or rethrows.\<close>

definition getBusinessStats_run ::
  "'d fetch_outcome \<Rightarrow> businesses_state \<Rightarrow> businesses_state \<times> (businesses_state \<times> 'd attempt)" where
  "getBusinessStats_run outcome s =
     (s,
      case outcome of
        FetchRejected message \<Rightarrow> (s, Threw message)
      | HttpResponse ok status body \<Rightarrow>
          if \<not> ok then (s, Threw (''Failed to fetch business stats: '' @ nat_to_string status))
          else (case body of
                  JsonRejected message \<Rightarrow> (s, Threw message)
                | JsonData data \<Rightarrow> (s, Returned data)))"

definition getBusinessStats ::
  "'d fetch_outcome \<Rightarrow> businesses_state \<Rightarrow> businesses_state \<times> 'd attempt" where
  "getBusinessStats outcome s = snd (getBusinessStats_run outcome s)"

section \<open>useStores (hooks/useStores.js)\<close>

text \<open>
  The API service is called through its promise: it rejects with an error whose
  \<open>message\<close> may be missing, or resolves to a result.
\<close>

datatype 'r api_outcome = ApiRejected "string option" | ApiResolved 'r

record stores_result =
  result_stores :: "store list"
  result_total :: nat
  result_has_more :: bool

text \<open>\<open>err.message || fallback\<close>.\<close>

definition message_or :: "string option \<Rightarrow> string \<Rightarrow> string" where
  "message_or m fallback =
     (case m of None \<Rightarrow> fallback | Some t \<Rightarrow> (if t = [] then fallback else t))"

text \<open>
  Each operation of \<open>useStores\<close> with its two states: the state in which the API service
  is called, after \<open>setLoading(true); setError(null)\<close>, and the state after \<open>finally\<close>.
\<close>

definition fetchStores_run ::
  "stores_result api_outcome \<Rightarrow> stores_state \<Rightarrow> stores_state \<times> stores_state" where
  "fetchStores_run outcome s0 =
     (let s = s0\<lparr>loading := True, error := None\<rparr>;
          s' = (case outcome of
                  ApiResolved result \<Rightarrow>
                    s\<lparr>stores := result_stores result, total := result_total result,
                      hasMore := result_has_more result\<rparr>
                | ApiRejected m \<Rightarrow>
                    s\<lparr>error := Some (message_or m ''Failed to fetch stores''), stores := []\<rparr>)
      in (s, s'\<lparr>loading := False\<rparr>))"

definition fetchStores :: "stores_result api_outcome \<Rightarrow> stores_state \<Rightarrow> stores_state" where
  "fetchStores outcome s0 = snd (fetchStores_run outcome s0)"

definition searchStores_run ::
  "stores_result api_outcome \<Rightarrow> stores_state \<Rightarrow> stores_state \<times> stores_state" where
  "searchStores_run outcome s0 =
     (let s = s0\<lparr>loading := True, error := None\<rparr>;
          s' = (case outcome of
                  ApiResolved result \<Rightarrow>
                    s\<lparr>stores := result_stores result, total := result_total result,
                      hasMore := result_has_more result\<rparr>
                | ApiRejected m \<Rightarrow>
                    s\<lparr>error := Some (message_or m ''Failed to search stores''), stores := []\<rparr>)
      in (s, s'\<lparr>loading := False\<rparr>))"

definition searchStores :: "stores_result api_outcome \<Rightarrow> stores_state \<Rightarrow> stores_state" where
  "searchStores outcome s0 = snd (searchStores_run outcome s0)"

definition getNearbyStores_run ::
  "store list api_outcome \<Rightarrow> stores_state \<Rightarrow> stores_state \<times> stores_state" where
  "getNearbyStores_run outcome s0 =
     (let s = s0\<lparr>loading := True, error := None\<rparr>;
          s' = (case outcome of
                  ApiResolved result \<Rightarrow>
                    s\<lparr>stores := result, total := length result, hasMore := False\<rparr>
                | ApiRejected m \<Rightarrow>
                    s\<lparr>error := Some (message_or m ''Failed to fetch nearby stores''), stores := []\<rparr>)
      in (s, s'\<lparr>loading := False\<rparr>))"

definition getNearbyStores :: "store list api_outcome \<Rightarrow> stores_state \<Rightarrow> stores_state" where
  "getNearbyStores outcome s0 = snd (getNearbyStores_run outcome s0)"

section \<open>useGeolocation and the geolocation service\<close>

text \<open>The codes of the platform's \<open>GeolocationPositionError\<close>.\<close>

definition PERMISSION_DENIED :: nat where
  "PERMISSION_DENIED = 1"

definition POSITION_UNAVAILABLE :: nat where
  "POSITION_UNAVAILABLE = 2"

definition TIMEOUT :: nat where
  "TIMEOUT = 3"

text \<open>
  What the platform does with a location request: there is no \<open>navigator.geolocation\<close>,
  the success callback is called with a position, or the error callback with a code.
\<close>

datatype geo_outcome = Unsupported | GotPosition geo_position | PositionError nat

text \<open>The \<open>switch\<close> in the error callback of the hook's own \<open>getCurrentLocation\<close>.\<close>

definition geolocation_error_message :: "nat \<Rightarrow> string" where
  "geolocation_error_message code =
     (if code = PERMISSION_DENIED then ''Location access denied by user''
      else if code = POSITION_UNAVAILABLE then ''Location information unavailable''
      else if code = TIMEOUT then ''Location request timed out''
      else ''Unknown geolocation error'')"

text \<open>The \<open>switch\<close> in \<open>googleMapsService.getCurrentLocation\<close> (services/googleMaps.js).\<close>

definition googleMaps_error_message :: "nat \<Rightarrow> string" where
  "googleMaps_error_message code =
     (if code = PERMISSION_DENIED then ''Location access denied. Please enable location services.''
      else if code = POSITION_UNAVAILABLE then ''Location information is unavailable.''
      else if code = TIMEOUT then ''Location request timed out.''
      else ''An unknown error occurred while retrieving location.'')"

text \<open>\<open>googleMapsService.getCurrentLocation\<close>: the promise rejects with a message or resolves.\<close>

definition googleMaps_getCurrentLocation :: "geo_outcome \<Rightarrow> geo_position attempt" where
  "googleMaps_getCurrentLocation outcome =
     (case outcome of
        Unsupported \<Rightarrow> Threw ''Geolocation is not supported by this browser.''
      | GotPosition p \<Rightarrow> Returned p
      | PositionError code \<Rightarrow> Threw (googleMaps_error_message code))"

text \<open>
  The four failure kinds of the specification, and the kind a platform code stands for:
  every code other than the three named ones is an unknown failure.
\<close>

datatype failure_kind = PermissionDenied | PositionUnavailable | TimedOut | UnknownFailure

definition failure_kind :: "nat \<Rightarrow> failure_kind" where
  "failure_kind code =
     (if code = PERMISSION_DENIED then PermissionDenied
      else if code = POSITION_UNAVAILABLE then PositionUnavailable
      else if code = TIMEOUT then TimedOut
      else UnknownFailure)"

text \<open>Whether a word occurs in a text, and whether a message is only a generic failure.\<close>

fun contains_word :: "string \<Rightarrow> string \<Rightarrow> bool" where
  "contains_word w [] = (w = [])"
| "contains_word w (c # cs) = (take (length w) (c # cs) = w \<or> contains_word w cs)"

definition mentions_failed :: "string \<Rightarrow> bool" where
  "mentions_failed m = (contains_word ''failed'' m \<or> contains_word ''Failed'' m)"

text \<open>Both versions of the hook open with \<open>setLoading(true); setError(null)\<close>.\<close>

definition geolocation_begin :: "geolocation_state \<Rightarrow> geolocation_state" where
  "geolocation_begin s0 = s0\<lparr>loading := True, error := None\<rparr>"

text \<open>The hook that asks the platform itself.\<close>

definition getCurrentLocation :: "geo_outcome \<Rightarrow> geolocation_state \<Rightarrow> geolocation_state" where
  "getCurrentLocation outcome s0 =
     (let s = geolocation_begin s0;
          s' = (case outcome of
                  Unsupported \<Rightarrow>
                    s\<lparr>error := Some ''Geolocation is not supported by this browser'',
                      location := None\<rparr>
                | GotPosition p \<Rightarrow> s\<lparr>location := Some p\<rparr>
                | PositionError code \<Rightarrow>
                    s\<lparr>error := Some (geolocation_error_message code), location := None\<rparr>)
      in s'\<lparr>loading := False\<rparr>)"

text \<open>The hook that goes through the service.\<close>

definition service_getCurrentLocation :: "geo_outcome \<Rightarrow> geolocation_state \<Rightarrow> geolocation_state" where
  "service_getCurrentLocation outcome s0 =
     (let s = geolocation_begin s0;
          s' = (case googleMaps_getCurrentLocation outcome of
                  Returned p \<Rightarrow> s\<lparr>location := Some p\<rparr>
                | Threw message \<Rightarrow> s\<lparr>error := Some message, location := None\<rparr>)
      in s'\<lparr>loading := False\<rparr>)"

section \<open>List views (components/BusinessList.js, components/StoreList.js)\<close>

text \<open>What a list component returns: one of four element trees.\<close>

datatype list_view = LoadingState | ErrorState string | EmptyState | ListView "business list"

text \<open>The three degraded states, as opposed to the populated list.\<close>

definition is_degraded :: "list_view \<Rightarrow> bool" where
  "is_degraded v = (case v of ListView bs \<Rightarrow> False | _ \<Rightarrow> True)"

text \<open>\<open>if (error)\<close>: null and the empty string are falsy.\<close>

definition truthy_error :: "string option \<Rightarrow> string option" where
  "truthy_error e = (case e of None \<Rightarrow> None | Some m \<Rightarrow> (if m = [] then None else Some m))"

definition BusinessList :: "business list \<Rightarrow> bool \<Rightarrow> string option \<Rightarrow> list_view" where
  "BusinessList bs is_loading err =
     (if is_loading \<and> bs = [] then LoadingState
      else (case truthy_error err of
              Some m \<Rightarrow> ErrorState m
            | None \<Rightarrow>
                if \<not> is_loading \<and> bs = [] then EmptyState
                else ListView bs))"

definition StoreList :: "store list \<Rightarrow> bool \<Rightarrow> string option \<Rightarrow> list_view" where
  "StoreList ss is_loading err =
     (case truthy_error err of
        Some m \<Rightarrow> ErrorState m
      | None \<Rightarrow>
          if is_loading \<and> ss = [] then LoadingState
          else if ss = [] then EmptyState
          else ListView ss)"

text \<open>
  The distance shown beside a store in \<open>StoreList\<close>: null (\<open>None\<close>) without a user
  location or with a falsy store coordinate, else the Haversine formula from the user's
  position to the parsed coordinates of the store, written out as in
  \<open>mockGoogleMaps.js\<close> (same radius, not rounded).
\<close>

definition StoreList_calculateDistance ::
  "platform_math \<Rightarrow> (string \<Rightarrow> jsnum) \<Rightarrow> geo_position option \<Rightarrow> store \<Rightarrow> jsnum option" where
  "StoreList_calculateDistance M parse userLocation st =
     (case userLocation of
        None \<Rightarrow> None
      | Some u \<Rightarrow>
          if \<not> (js_truthy (latitude st) \<and> js_truthy (longitude st)) then None
          else Some (mock_calculateDistance M (Fin (lat u)) (Fin (lng u))
                       (parseFloat parse (latitude st)) (parseFloat parse (longitude st))))"

section \<open>SearchFilters (components/SearchFilters.js)\<close>

record filters =
  query :: string
  category :: string
  min_rating :: string
  max_price_level :: string
  radius :: string
  exclude_closed :: bool

text \<open>
  The object built in the search effect, after the undefined entries are deleted.
  \<open>parseInt\<close> on a string is the parameter \<open>parseInt\<close>.
\<close>

definition searchParams :: "(string \<Rightarrow> jsnum) \<Rightarrow> (string \<Rightarrow> jsnum) \<Rightarrow> filters \<Rightarrow> jsobject" where
  "searchParams parse parseInt f =
     delete_undefined
       [(''query'', if query f \<noteq> [] then JStr (query f) else JUndefined),
        (''category'', if category f \<noteq> [] then JStr (category f) else JUndefined),
        (''min_rating'',
           if min_rating f \<noteq> [] then JNum (parseFloat parse (JStr (min_rating f))) else JUndefined),
        (''max_price_level'',
           if max_price_level f \<noteq> [] then JNum (parseInt (max_price_level f)) else JUndefined),
        (''radius'', JNum (js_div_by (parseInt (radius f)) 1000))]"

text \<open>The effect: nothing while the debounced query lags behind, else \<open>onSearch\<close> is called.\<close>

definition search_effect ::
  "(string \<Rightarrow> jsnum) \<Rightarrow> (string \<Rightarrow> jsnum) \<Rightarrow> string \<Rightarrow> filters \<Rightarrow> jsobject option" where
  "search_effect parse parseInt debouncedQuery f =
     (if debouncedQuery \<noteq> query f then None else Some (searchParams parse parseInt f))"

section \<open>App (App.js)\<close>

record app_state =
  biz :: businesses_state
  geo :: geolocation_state
  mapCenter :: "real \<times> real"
  mapZoom :: nat
  activeCategory :: string

text \<open>\<open>handleSearch\<close>: the active category is added to the search parameters.\<close>

definition handleSearch_params :: "string \<Rightarrow> jsobject \<Rightarrow> jsobject" where
  "handleSearch_params active sp = js_spread sp [(''category'', JStr active)]"

definition handleSearch ::
  "(string \<Rightarrow> jsnum) \<Rightarrow> jsobject \<Rightarrow> businesses_data fetch_outcome \<Rightarrow> app_state \<Rightarrow> app_state" where
  "handleSearch parse sp outcome s =
     s\<lparr>biz := fst (searchBusinesses parse (handleSearch_params (activeCategory s) sp) outcome (biz s))\<rparr>"

text \<open>\<open>handleLoadMore\<close>: the next page starts at the number of businesses held.\<close>

definition handleLoadMore ::
  "(string \<Rightarrow> jsnum) \<Rightarrow> businesses_data fetch_outcome \<Rightarrow> app_state \<Rightarrow> app_state" where
  "handleLoadMore parse outcome s =
     s\<lparr>biz := fst (fetchBusinesses parse
                     [(''category'', JStr (activeCategory s)),
                      (''offset'', JNum (Fin (real (length (businesses (biz s)))))),
                      (''limit'', JNum (Fin 50))]
                     outcome (biz s))\<rparr>"

text \<open>
  \<open>handleLocationSearch\<close>, with the list of requests it sends to the businesses endpoint.
  The callback reads \<open>userLocation\<close> from the render that created it, that is the
  location held when it is invoked; \<open>getCurrentLocation\<close> catches its own errors, so the
  handler goes on after it in every case.
\<close>

definition handleLocationSearch ::
  "(string \<Rightarrow> jsnum) \<Rightarrow> jsnum \<Rightarrow> geo_outcome \<Rightarrow> businesses_data fetch_outcome \<Rightarrow> app_state \<Rightarrow>
   app_state \<times> query list" where
  "handleLocationSearch parse rad geoOutcome outcome s =
     (let userLocation = location (geo s);
          s1 = s\<lparr>geo := getCurrentLocation geoOutcome (geo s)\<rparr>
      in case userLocation of
           None \<Rightarrow> (s1, [])
         | Some u \<Rightarrow>
             (let radiusKm = js_div_by rad 1000;
                  params = nearby_params (JNum (Fin (lat u))) (JNum (Fin (lng u)))
                             (JNum radiusKm) (JStr (activeCategory s));
                  s2 = s1\<lparr>biz := fst (getNearbyBusinesses parse (JNum (Fin (lat u)))
                                         (JNum (Fin (lng u))) (JNum radiusKm)
                                         (JStr (activeCategory s)) outcome (biz s1))\<rparr>
              in (s2\<lparr>mapCenter := (lat u, lng u), mapZoom := 14\<rparr>,
                  (case queryParams parse params of None \<Rightarrow> [] | Some q \<Rightarrow> [q]))))"

section \<open>Properties of the arithmetic\<close>

text \<open>Rounding a number whose binade is known; this is how a concrete step is evaluated.\<close>

lemma floor_log2_eq:
  assumes "2 powi e \<le> \<bar>x\<bar>" and "\<bar>x\<bar> < 2 powi (e + 1)"
  shows "\<lfloor>log 2 \<bar>x\<bar>\<rfloor> = e"
proof -
  have pos: "0 < \<bar>x\<bar>"
    using assms(1) by (smt (verit) zero_less_power_int)
  have a: "(2::real) powr real_of_int e = 2 powi e"
    by (rule powr_real_of_int') simp_all
  have b: "(2::real) powr real_of_int (e + 1) = 2 powi (e + 1)"
    by (rule powr_real_of_int') simp_all
  have "(2::real) powr real_of_int e \<le> \<bar>x\<bar> \<and> \<bar>x\<bar> < 2 powr real_of_int (e + 1)"
    using assms by (simp only: a b)
  then show ?thesis
    using pos floor_log_eq_powr_iff [of "\<bar>x\<bar>" 2 e] by simp
qed

lemma to_double_eq:
  assumes "2 powi e \<le> \<bar>x\<bar>" and "\<bar>x\<bar> < 2 powi (e + 1)" and "- 1022 \<le> e"
    and "round_even (x / 2 powi (e - 52)) = m"
    and "\<bar>of_int m * 2 powi (e - 52)\<bar> < (2::real) ^ 1024"
  shows "to_double x = Fin (of_int m * 2 powi (e - 52))"
proof -
  have nz: "x \<noteq> 0"
    using assms(1) by (smt (verit) zero_less_power_int)
  have "ulp_exponent x = e - 52"
    using floor_log2_eq [OF assms(1,2)] assms(3) by (simp add: ulp_exponent_def)
  then show ?thesis
    using nz assms(4,5) by (simp add: to_double_def Let_def)
qed

lemma to_double_0: "to_double 0 = Fin 0"
  by (simp add: to_double_def)

lemma to_double_1: "to_double 1 = Fin 1"
  using to_double_eq [where e = 0 and m = 4503599627370496 and x = 1]
  by (simp add: round_even_def)

lemma round_even_minus: "round_even (- y) = - round_even y"
proof (cases "y = of_int \<lfloor>y\<rfloor>")
  case True
  then have "\<lfloor>- y\<rfloor> = - \<lfloor>y\<rfloor>"
    by (metis floor_of_int of_int_minus)
  with True show ?thesis
    by (simp add: round_even_def Let_def)
next
  case False
  then have c: "\<lceil>y\<rceil> = \<lfloor>y\<rfloor> + 1"
    by (simp only: ceiling_altdef if_False)
  have f: "\<lfloor>- y\<rfloor> = - \<lfloor>y\<rfloor> - 1"
    using c unfolding ceiling_def by linarith
  have lt: "of_int \<lfloor>y\<rfloor> < y"
    using False of_int_floor_le [of y] by (metis less_le)
  show ?thesis
    unfolding round_even_def Let_def f
    using lt by (auto simp: algebra_simps)
qed

lemma ulp_exponent_minus: "ulp_exponent (- x) = ulp_exponent x"
  by (simp add: ulp_exponent_def)

lemma to_double_minus: "to_double (- x) = js_neg (to_double x)"
  by (simp add: to_double_def Let_def ulp_exponent_minus round_even_minus)

lemma js_neg_neg: "js_neg (js_neg a) = a"
  by (cases a) simp_all

lemma js_mul_commute: "js_mul a b = js_mul b a"
  by (cases a; cases b) (auto simp: mult.commute)

lemma js_sub_swap: "js_sub b a = js_neg (js_sub a b)"
proof (cases a; cases b)
  fix x y assume "a = Fin x" "b = Fin y"
  then show ?thesis
    using to_double_minus [of "x - y"] by simp
qed simp_all

lemma js_mul_neg_left: "js_mul (js_neg a) b = js_neg (js_mul a b)"
proof (cases a; cases b)
  fix x y assume "a = Fin x" "b = Fin y"
  then show ?thesis
    using to_double_minus [of "x * y"] by simp
qed auto

lemma js_mul_neg_right: "js_mul a (js_neg b) = js_neg (js_mul a b)"
  using js_mul_neg_left [of b a] by (simp add: js_mul_commute)

lemma js_div_neg_left: "js_div (js_neg a) b = js_neg (js_div a b)"
proof (cases a; cases b)
  fix x y assume "a = Fin x" "b = Fin y"
  then show ?thesis
    using to_double_minus [of "x / y"] by simp
qed auto

text \<open>A number within a power of two rounds to a double within it: no overflow.\<close>

lemma round_even_le: "y \<le> of_int N \<Longrightarrow> round_even y \<le> N"
proof (cases "y = of_int N")
  case True
  then show ?thesis by (simp add: round_even_def)
next
  case False
  assume "y \<le> of_int N"
  with False have "y < of_int N" by simp
  then have "\<lfloor>y\<rfloor> < N" by (simp add: floor_less_iff)
  then show ?thesis
    by (simp add: round_even_def Let_def)
qed

lemma round_even_ge: "of_int N \<le> y \<Longrightarrow> N \<le> round_even y"
proof -
  assume "of_int N \<le> y"
  then have "N \<le> \<lfloor>y\<rfloor>" by (simp add: le_floor_iff)
  then show ?thesis
    by (simp add: round_even_def Let_def)
qed

lemma to_double_bounded:
  assumes b: "\<bar>x\<bar> \<le> 2 ^ k" and k: "k \<le> 1023"
  shows "\<exists>v. to_double x = Fin v \<and> \<bar>v\<bar> \<le> 2 ^ k"
proof (cases "x = 0")
  case True
  then show ?thesis by (simp add: to_double_def)
next
  case False
  define E where "E = ulp_exponent x"
  define u :: real where "u = 2 powi E"
  define m where "m = round_even (x / u)"
  have upos: "0 < u" by (simp add: u_def)
  have "log 2 \<bar>x\<bar> \<le> log 2 (2 ^ k)"
    using False b by (simp del: log_pow_cancel)
  then have "log 2 \<bar>x\<bar> \<le> real k"
    by simp
  then have "\<lfloor>log 2 \<bar>x\<bar>\<rfloor> \<le> int k"
    by (simp add: floor_le_iff)
  then have Ek: "E + 52 \<le> int k"
    by (simp add: E_def ulp_exponent_def)
  define n where "n = nat (int k - E)"
  have n: "int n = int k - E"
    using Ek by (simp add: n_def)
  have e1: "(2::real) powi (E + int n) = 2 powi E * 2 powi int n"
    by (simp add: power_int_add)
  have e2: "E + int n = int k"
    using n by simp
  have pw: "u * 2 ^ n = 2 ^ k"
    using e1 unfolding e2 by (simp add: u_def)
  have "\<bar>x / u\<bar> \<le> 2 ^ k / u"
    using b upos by (simp add: divide_right_mono)
  also have "2 ^ k / u = 2 ^ n"
    using pw upos by (simp add: field_simps)
  finally have ax: "\<bar>x / u\<bar> \<le> 2 ^ n" .
  have up0: "x / u \<le> 2 ^ n"
    using abs_ge_self ax by (rule order_trans)
  have lo0: "- (x / u) \<le> 2 ^ n"
    using abs_ge_minus_self ax by (rule order_trans)
  have up: "x / u \<le> of_int (2 ^ n)"
    using up0 by (simp only: of_int_power of_int_numeral)
  have lo: "of_int (- (2 ^ n)) \<le> x / u"
    using lo0 by (simp only: of_int_minus of_int_power of_int_numeral)
  have "m \<le> 2 ^ n" and "- (2 ^ n) \<le> m"
    unfolding m_def using round_even_le [OF up] round_even_ge [OF lo] by simp_all
  then have "\<bar>of_int m :: real\<bar> \<le> 2 ^ n"
    by (simp add: abs_le_iff) (metis of_int_le_iff of_int_minus of_int_numeral of_int_power minus_le_iff)
  then have "\<bar>of_int m * u\<bar> \<le> 2 ^ n * u"
    using upos by (simp add: abs_mult mult_right_mono)
  then have bound: "\<bar>of_int m * u\<bar> \<le> 2 ^ k"
    using pw by (simp add: mult.commute)
  have "(2::real) ^ k \<le> 2 ^ 1023"
    using k by (intro power_increasing) simp_all
  also have "\<dots> < (2::real) ^ 1024"
    by simp
  finally have "\<bar>of_int m * u\<bar> < 2 ^ 1024"
    using bound by linarith
  then have "to_double x = Fin (of_int m * u)"
    using False by (simp add: to_double_def Let_def E_def [symmetric] u_def [symmetric] m_def [symmetric])
  with bound show ?thesis by blast
qed

section \<open>Properties of the distance calculator\<close>

subsection \<open>Both orders of the points\<close>

text \<open>
  Swapping the two points negates the two differences, whose sines are squared, and swaps
  the two cosines of a product; rounding is symmetric in the sign and multiplication
  commutes. So, on a platform whose sine is odd, both orders compute the same value, be
  it a number or not.
\<close>

lemma haversine_a_swap:
  assumes sin_odd: "\<And>x. Math_sin M (js_neg x) = js_neg (Math_sin M x)"
  shows "haversine_a M lat2 lng2 lat1 lng1 = haversine_a M lat1 lng1 lat2 lng2"
proof -
  have half: "js_div (js_div (js_mul (js_sub q p) Math_PI) (Fin 180)) (Fin 2) =
        js_neg (js_div (js_div (js_mul (js_sub p q) Math_PI) (Fin 180)) (Fin 2))" for p q
    by (simp add: js_sub_swap [of q p] js_mul_neg_left js_div_neg_left)
  have sq: "js_mul (js_neg s) (js_neg s) = js_mul s s" for s
    by (simp add: js_mul_neg_left js_mul_neg_right js_neg_neg)
  have sq2: "js_mul (js_mul c (js_neg s)) (js_neg s) = js_mul (js_mul c s) s" for c s
    by (simp add: js_mul_neg_left js_mul_neg_right js_neg_neg)
  show ?thesis
    unfolding haversine_a_def Let_def
    by (simp only: half [of lat2 lat1] half [of lng2 lng1] sin_odd sq sq2
        js_mul_commute [of "Math_cos M (js_div (js_mul lat2 Math_PI) (Fin 180))"])
qed

lemma same_result_both_orders:
  assumes "\<And>x. Math_sin M (js_neg x) = js_neg (Math_sin M x)"
  shows "calculateDistance M lat2 lng2 lat1 lng1 = calculateDistance M lat1 lng1 lat2 lng2 \<and>
         mock_calculateDistance M lat2 lng2 lat1 lng1 = mock_calculateDistance M lat1 lng1 lat2 lng2"
  by (simp add: calculateDistance_def mock_calculateDistance_def haversine_a_swap [OF assms])

subsection \<open>Identical points\<close>

text \<open>
  For a point with a valid latitude the two service functions return 0 at identical
  points, on a platform where the sine of 0 is 0, \<open>atan2(0, 1)\<close> is 0 and a cosine is
  between -1 and 1.
\<close>

lemma haversine_tail_zero:
  assumes "Math_atan2 M (Fin 0) (Fin 1) = Fin 0"
  shows "js_mul (Fin 6371000)
           (js_mul (Fin 2) (Math_atan2 M (Math_sqrt (Fin 0)) (Math_sqrt (js_sub (Fin 1) (Fin 0))))) = Fin 0"
  using assms by (simp add: to_double_0 to_double_1)

lemma radians_finite:
  assumes "\<bar>x\<bar> \<le> 90"
  shows "\<exists>p. js_div (js_mul (Fin x) Math_PI) (Fin 180) = Fin p"
proof -
  have "\<bar>x * (884279719003555 / 281474976710656)\<bar> \<le> 2 ^ 9"
    using assms by (simp add: abs_mult)
  then obtain t where t: "to_double (x * (884279719003555 / 281474976710656)) = Fin t"
    and tb: "\<bar>t\<bar> \<le> 2 ^ 9"
    using to_double_bounded [of "x * (884279719003555 / 281474976710656)" 9] by auto
  have "\<bar>t / 180\<bar> \<le> 2 ^ 9"
    using tb by simp
  then obtain p where "to_double (t / 180) = Fin p"
    using to_double_bounded [of "t / 180" 9] by auto
  with t show ?thesis
    by (simp add: Math_PI_def)
qed

lemma haversine_a_identical_points:
  assumes s0: "Math_sin M (Fin 0) = Fin 0"
    and cs: "\<And>p. \<exists>v. Math_cos M (Fin p) = Fin v \<and> \<bar>v\<bar> \<le> 1"
    and valid: "\<bar>x\<bar> \<le> 90"
  shows "haversine_a M (Fin x) (Fin y) (Fin x) (Fin y) = Fin 0"
proof -
  obtain p where p: "js_div (js_mul (Fin x) Math_PI) (Fin 180) = Fin p"
    using radians_finite [OF valid] by blast
  obtain v where v: "Math_cos M (Fin p) = Fin v" and vb: "\<bar>v\<bar> \<le> 1"
    using cs [of p] by blast
  have "\<bar>v\<bar> * \<bar>v\<bar> \<le> 1 * 1"
    using vb by (intro mult_mono) simp_all
  then have "\<bar>v * v\<bar> \<le> 2 ^ 0"
    by (simp add: abs_mult)
  then obtain w where w: "to_double (v * v) = Fin w"
    using to_double_bounded [of "v * v" 0] by auto
  have zero: "js_div (js_div (js_mul (js_sub (Fin z) (Fin z)) Math_PI) (Fin 180)) (Fin 2) = Fin 0" for z
    by (simp add: Math_PI_def to_double_0)
  show ?thesis
    unfolding haversine_a_def Let_def
    by (simp only: zero p v s0 js_mul.simps js_add.simps w mult_zero_right mult_zero_left
        add_0_left to_double_0)
qed

lemma zero_at_identical_points:
  assumes "Math_sin M (Fin 0) = Fin 0"
    and "Math_atan2 M (Fin 0) (Fin 1) = Fin 0"
    and "\<And>p. \<exists>v. Math_cos M (Fin p) = Fin v \<and> \<bar>v\<bar> \<le> 1"
    and "\<bar>x\<bar> \<le> 90"
  shows "calculateDistance M (Fin x) (Fin y) (Fin x) (Fin y) = Fin 0 \<and>
         mock_calculateDistance M (Fin x) (Fin y) (Fin x) (Fin y) = Fin 0"
  using haversine_tail_zero [OF assms(2)]
  by (simp add: calculateDistance_def mock_calculateDistance_def
      haversine_a_identical_points [OF assms(1,3,4)])

text \<open>
  The copy in \<open>StoreList\<close> does the same for a store at the user's own position, as long as
  neither coordinate is 0.
\<close>

lemma StoreList_distance_to_own_position:
  assumes "Math_sin M (Fin 0) = Fin 0"
    and "Math_atan2 M (Fin 0) (Fin 1) = Fin 0"
    and "\<And>p. \<exists>v. Math_cos M (Fin p) = Fin v \<and> \<bar>v\<bar> \<le> 1"
    and "\<bar>lat u\<bar> \<le> 90"
    and "latitude st = JNum (Fin (lat u))" and "longitude st = JNum (Fin (lng u))"
    and "lat u \<noteq> 0" and "lng u \<noteq> 0"
  shows "StoreList_calculateDistance M parse (Some u) st = Some (Fin 0)"
  using zero_at_identical_points [OF assms(1-4), of "lng u"] assms(5-8)
  by (simp add: StoreList_calculateDistance_def parseFloat_def)


subsection \<open>Sine and cosine at the angles of (8, 0) and (-8, 180)\<close>

text \<open>
  Bounds on the mathematical sine and cosine at the angles 0.13962634015954636 and
  1.5707963267948966, from their Taylor polynomials with the remainder of Maclaurin's
  theorem. Each power and each partial sum is enclosed between two multiples of
  \<open>1 / 2 ^ 90\<close>.
\<close>

lemma power_bounds_step:
  fixes x :: real
  assumes "l \<le> x ^ k \<and> x ^ k \<le> h" and "x ^ 2 = s" and "m \<le> l * s" and "h * s \<le> n"
  shows "m \<le> x ^ (k + 2) \<and> x ^ (k + 2) \<le> n"
proof -
  have s: "0 \<le> s"
    using assms(2) zero_le_power2 [of x] by simp
  have e: "x ^ (k + 2) = x ^ k * s"
    using assms(2) by (simp only: power_add)
  have "l * s \<le> x ^ k * s" and "x ^ k * s \<le> h * s"
    using assms(1) s by (simp_all add: mult_right_mono)
  then show ?thesis
    unfolding e using assms(3,4) by linarith
qed

lemma bounds_divide:
  fixes a :: real
  assumes "l \<le> a \<and> a \<le> h" and "0 < c" and "m \<le> l / c" and "h / c \<le> n"
  shows "m \<le> a / c \<and> a / c \<le> n"
proof -
  have "l / c \<le> a / c" and "a / c \<le> h / c"
    using assms(1,2) by (simp_all add: divide_right_mono)
  then show ?thesis
    using assms(3,4) by linarith
qed

lemma bounds_add:
  fixes a :: real
  assumes "l \<le> a \<and> a \<le> h" and "l2 \<le> b \<and> b \<le> h2" and "m \<le> l + l2" and "h + h2 \<le> n"
  shows "m \<le> a + b \<and> a + b \<le> n"
  using assms by linarith

lemma bounds_diff:
  fixes a :: real
  assumes "l \<le> a \<and> a \<le> h" and "l2 \<le> b \<and> b \<le> h2" and "m \<le> l - h2" and "h - l2 \<le> n"
  shows "m \<le> a - b \<and> a - b \<le> n"
  using assms by linarith

lemma bounds_remainder:
  fixes f :: real
  assumes "\<bar>f - p\<bar> \<le> r" and "l \<le> p \<and> p \<le> h" and "l2 \<le> r \<and> r \<le> h2"
    and "m < l - h2" and "h + h2 < n"
  shows "m < f \<and> f < n"
  using assms by linarith

lemma sin_poly_13:
  "(\<Sum>m<13. sin_coeff m * (x :: real) ^ m) =
     x - x ^ 3 / 6 + x ^ 5 / 120 - x ^ 7 / 5040 + x ^ 9 / 362880 - x ^ 11 / 39916800"
  by (simp add: lessThan_nat_numeral lessThan_Suc sin_coeff_def fact_numeral)

lemma cos_poly_14:
  "(\<Sum>m<14. cos_coeff m * (x :: real) ^ m) =
     1 - x ^ 2 / 2 + x ^ 4 / 24 - x ^ 6 / 720 + x ^ 8 / 40320 - x ^ 10 / 3628800 + x ^ 12 / 479001600"
  by (simp add: lessThan_nat_numeral lessThan_Suc cos_coeff_def fact_numeral)

lemma sin_poly_23:
  "(\<Sum>m<23. sin_coeff m * (x :: real) ^ m) =
     x - x ^ 3 / 6 + x ^ 5 / 120 - x ^ 7 / 5040 + x ^ 9 / 362880 - x ^ 11 / 39916800 + x ^ 13 / 6227020800 - x ^ 15 / 1307674368000 + x ^ 17 / 355687428096000 - x ^ 19 / 121645100408832000 + x ^ 21 / 51090942171709440000"
  by (simp add: lessThan_nat_numeral lessThan_Suc sin_coeff_def fact_numeral)

text \<open>The sine of 0.13962634015954636 lies within half a unit in the last place of 0.13917310096006544.\<close>

lemma sin_interval:
  "10028478809979953 / 72057594037927936 < sin (5030569068109113 / 36028797018963968 :: real) \<and> sin (5030569068109113 / 36028797018963968 :: real) < 10028478809979955 / 72057594037927936"
proof -
  define x :: real where "x = 5030569068109113 / 36028797018963968"
  have x0: "0 \<le> x"
    by (simp add: x_def)
  have x2: "x ^ 2 = 25306625149016189589445273646769 / 1298074214633706907132624082305024"
    by (simp add: x_def power_divide)
  have b3: "842445242726007741825177 / 309485009821345068724781056 \<le> x ^ 3 \<and> x ^ 3 \<le> 3369780970904030967300709 / 1237940039285380274899124224"
    by (simp add: x_def power_divide)
  have b5: "32847807507300340575877 / 618970019642690137449562112 \<le> x ^ 5 \<and> x ^ 5 \<le> 65695615014600681151755 / 1237940039285380274899124224"
    using power_bounds_step [OF b3 x2, where m = "32847807507300340575877 / 618970019642690137449562112" and n = "65695615014600681151755 / 1237940039285380274899124224"]
    by simp
  have b7: "80048114948194445613 / 77371252455336267181195264 \<le> x ^ 7 \<and> x ^ 7 \<le> 1280769839171111129809 / 1237940039285380274899124224"
    using power_bounds_step [OF b5 x2, where m = "80048114948194445613 / 77371252455336267181195264" and n = "1280769839171111129809 / 1237940039285380274899124224"]
    by simp
  have b9: "24969267439932262707 / 1237940039285380274899124224 \<le> x ^ 9 \<and> x ^ 9 \<le> 6242316859983065677 / 309485009821345068724781056"
    using power_bounds_step [OF b7 x2, where m = "24969267439932262707 / 1237940039285380274899124224" and n = "6242316859983065677 / 309485009821345068724781056"]
    by simp
  have b11: "486788724577052195 / 1237940039285380274899124224 \<le> x ^ 11 \<and> x ^ 11 \<le> 121697181144263049 / 309485009821345068724781056"
    using power_bounds_step [OF b9 x2, where m = "486788724577052195 / 1237940039285380274899124224" and n = "121697181144263049 / 309485009821345068724781056"]
    by simp
  have b13: "1186274602095395 / 154742504910672534362390528 \<le> x ^ 13 \<and> x ^ 13 \<le> 9490196816763161 / 1237940039285380274899124224"
    using power_bounds_step [OF b11 x2, where m = "1186274602095395 / 154742504910672534362390528" and n = "9490196816763161 / 1237940039285380274899124224"]
    by simp
  have t3: "280815080908669247275059 / 618970019642690137449562112 \<le> x ^ 3 / 6 \<and> x ^ 3 / 6 \<le> 561630161817338494550119 / 1237940039285380274899124224"
    using bounds_divide [OF b3, where c = "6" and m = "280815080908669247275059 / 618970019642690137449562112" and n = "561630161817338494550119 / 1237940039285380274899124224"]
    by simp
  have t5: "68432932306875709533 / 154742504910672534362390528 \<le> x ^ 5 / 120 \<and> x ^ 5 / 120 \<le> 547463458455005676265 / 1237940039285380274899124224"
    using bounds_divide [OF b5, where c = "120" and m = "68432932306875709533 / 154742504910672534362390528" and n = "547463458455005676265 / 1237940039285380274899124224"]
    by simp
  have t7: "127060499917768961 / 618970019642690137449562112 \<le> x ^ 7 / 5040 \<and> x ^ 7 / 5040 \<le> 254120999835537923 / 1237940039285380274899124224"
    using bounds_divide [OF b7, where c = "5040" and m = "127060499917768961 / 618970019642690137449562112" and n = "254120999835537923 / 1237940039285380274899124224"]
    by simp
  have t9: "68808607363129 / 1237940039285380274899124224 \<le> x ^ 9 / 362880 \<and> x ^ 9 / 362880 \<le> 34404303681565 / 618970019642690137449562112"
    using bounds_divide [OF b9, where c = "362880" and m = "68808607363129 / 1237940039285380274899124224" and n = "34404303681565 / 618970019642690137449562112"]
    by simp
  have t11: "762192743 / 77371252455336267181195264 \<le> x ^ 11 / 39916800 \<and> x ^ 11 / 39916800 \<le> 12195083889 / 1237940039285380274899124224"
    using bounds_divide [OF b11, where c = "39916800" and m = "762192743 / 77371252455336267181195264" and n = "12195083889 / 1237940039285380274899124224"]
    by simp
  have t13: "762017 / 618970019642690137449562112 \<le> x ^ 13 / 6227020800 \<and> x ^ 13 / 6227020800 \<le> 1524035 / 1237940039285380274899124224"
    using bounds_divide [OF b13, where c = "6227020800" and m = "762017 / 618970019642690137449562112" and n = "1524035 / 1237940039285380274899124224"]
    by simp
  have s1: "5030569068109113 / 36028797018963968 \<le> x \<and> x \<le> 5030569068109113 / 36028797018963968"
    by (simp add: x_def)
  have s3: "172287406860565356661997465 / 1237940039285380274899124224 \<le> x - x ^ 3 / 6 \<and> x - x ^ 3 / 6 \<le> 86143703430282678330998733 / 618970019642690137449562112"
    using bounds_diff [OF s1 t3, where m = "172287406860565356661997465 / 1237940039285380274899124224" and n = "86143703430282678330998733 / 618970019642690137449562112"]
    by simp
  have s5: "172287954324023811667673729 / 1237940039285380274899124224 \<le> x - x ^ 3 / 6 + x ^ 5 / 120 \<and> x - x ^ 3 / 6 + x ^ 5 / 120 \<le> 172287954324023811667673731 / 1237940039285380274899124224"
    using bounds_add [OF s3 t5, where m = "172287954324023811667673729 / 1237940039285380274899124224" and n = "172287954324023811667673731 / 1237940039285380274899124224"]
    by simp
  have s7: "86143977034951405916067903 / 618970019642690137449562112 \<le> x - x ^ 3 / 6 + x ^ 5 / 120 - x ^ 7 / 5040 \<and> x - x ^ 3 / 6 + x ^ 5 / 120 - x ^ 7 / 5040 \<le> 172287954069902811832135809 / 1237940039285380274899124224"
    using bounds_diff [OF s5 t7, where m = "86143977034951405916067903 / 618970019642690137449562112" and n = "172287954069902811832135809 / 1237940039285380274899124224"]
    by simp
  have s9: "172287954069971620439498935 / 1237940039285380274899124224 \<le> x - x ^ 3 / 6 + x ^ 5 / 120 - x ^ 7 / 5040 + x ^ 9 / 362880 \<and> x - x ^ 3 / 6 + x ^ 5 / 120 - x ^ 7 / 5040 + x ^ 9 / 362880 \<le> 172287954069971620439498939 / 1237940039285380274899124224"
    using bounds_add [OF s7 t9, where m = "172287954069971620439498935 / 1237940039285380274899124224" and n = "172287954069971620439498939 / 1237940039285380274899124224"]
    by simp
  have s11: "86143977034985804122207523 / 618970019642690137449562112 \<le> x - x ^ 3 / 6 + x ^ 5 / 120 - x ^ 7 / 5040 + x ^ 9 / 362880 - x ^ 11 / 39916800 \<and> x - x ^ 3 / 6 + x ^ 5 / 120 - x ^ 7 / 5040 + x ^ 9 / 362880 - x ^ 11 / 39916800 \<le> 172287954069971608244415051 / 1237940039285380274899124224"
    using bounds_diff [OF s9 t11, where m = "86143977034985804122207523 / 618970019642690137449562112" and n = "172287954069971608244415051 / 1237940039285380274899124224"]
    by simp
  have f: "inverse (fact 13) * \<bar>x\<bar> ^ 13 = x ^ 13 / 6227020800"
    using x0 by (simp add: fact_numeral)
  have r: "\<bar>sin x - (x - x ^ 3 / 6 + x ^ 5 / 120 - x ^ 7 / 5040 + x ^ 9 / 362880 - x ^ 11 / 39916800)\<bar> \<le> x ^ 13 / 6227020800"
    using Maclaurin_sin_bound [of x 13] unfolding sin_poly_13 f .
  have "10028478809979953 / 72057594037927936 < sin x \<and> sin x < 10028478809979955 / 72057594037927936"
    using bounds_remainder [OF r s11 t13, where m = "10028478809979953 / 72057594037927936" and n = "10028478809979955 / 72057594037927936"]
    by simp
  then show ?thesis
    unfolding x_def .
qed

text \<open>The cosine of 0.13962634015954636 lies within half a unit in the last place of 0.9902680687415704.\<close>

lemma cos_interval:
  "17839083621525747 / 18014398509481984 < cos (5030569068109113 / 36028797018963968 :: real) \<and> cos (5030569068109113 / 36028797018963968 :: real) < 17839083621525749 / 18014398509481984"
proof -
  define x :: real where "x = 5030569068109113 / 36028797018963968"
  have x0: "0 \<le> x"
    by (simp add: x_def)
  have x2: "x ^ 2 = 25306625149016189589445273646769 / 1298074214633706907132624082305024"
    by (simp add: x_def power_divide)
  have b2: "24134278439537229146428369 / 1237940039285380274899124224 \<le> x ^ 2 \<and> x ^ 2 \<le> 12067139219768614573214185 / 618970019642690137449562112"
    by (simp add: x_def power_divide)
  have b4: "235255092053306317952045 / 618970019642690137449562112 \<le> x ^ 4 \<and> x ^ 4 \<le> 470510184106612635904091 / 1237940039285380274899124224"
    using power_bounds_step [OF b2 x2, where m = "235255092053306317952045 / 618970019642690137449562112" and n = "470510184106612635904091 / 1237940039285380274899124224"]
    by simp
  have b6: "2293209572254809040895 / 309485009821345068724781056 \<le> x ^ 6 \<and> x ^ 6 \<le> 9172838289019236163581 / 1237940039285380274899124224"
    using power_bounds_step [OF b4 x2, where m = "2293209572254809040895 / 309485009821345068724781056" and n = "9172838289019236163581 / 1237940039285380274899124224"]
    by simp
  have b8: "89414602615096525743 / 618970019642690137449562112 \<le> x ^ 8 \<and> x ^ 8 \<le> 178829205230193051487 / 1237940039285380274899124224"
    using power_bounds_step [OF b6 x2, where m = "89414602615096525743 / 618970019642690137449562112" and n = "178829205230193051487 / 1237940039285380274899124224"]
    by simp
  have b10: "871591857275666879 / 309485009821345068724781056 \<le> x ^ 10 \<and> x ^ 10 \<le> 3486367429102667517 / 1237940039285380274899124224"
    using power_bounds_step [OF b8 x2, where m = "871591857275666879 / 309485009821345068724781056" and n = "3486367429102667517 / 1237940039285380274899124224"]
    by simp
  have b12: "67968528043627217 / 1237940039285380274899124224 \<le> x ^ 12 \<and> x ^ 12 \<le> 33984264021813609 / 618970019642690137449562112"
    using power_bounds_step [OF b10 x2, where m = "67968528043627217 / 1237940039285380274899124224" and n = "33984264021813609 / 618970019642690137449562112"]
    by simp
  have b14: "1325081448918417 / 1237940039285380274899124224 \<le> x ^ 14 \<and> x ^ 14 \<le> 662540724459209 / 618970019642690137449562112"
    using power_bounds_step [OF b12 x2, where m = "1325081448918417 / 1237940039285380274899124224" and n = "662540724459209 / 618970019642690137449562112"]
    by simp
  have t2: "1508392402471076821651773 / 154742504910672534362390528 \<le> x ^ 2 / 2 \<and> x ^ 2 / 2 \<le> 12067139219768614573214185 / 1237940039285380274899124224"
    using bounds_divide [OF b2, where c = "2" and m = "1508392402471076821651773 / 154742504910672534362390528" and n = "12067139219768614573214185 / 1237940039285380274899124224"]
    by simp
  have t4: "9802295502221096581335 / 618970019642690137449562112 \<le> x ^ 4 / 24 \<and> x ^ 4 / 24 \<le> 19604591004442193162671 / 1237940039285380274899124224"
    using bounds_divide [OF b4, where c = "24" and m = "9802295502221096581335 / 618970019642690137449562112" and n = "19604591004442193162671 / 1237940039285380274899124224"]
    by simp
  have t6: "1592506647399172945 / 154742504910672534362390528 \<le> x ^ 6 / 720 \<and> x ^ 6 / 720 \<le> 12740053179193383561 / 1237940039285380274899124224"
    using bounds_divide [OF b6, where c = "720" and m = "1592506647399172945 / 154742504910672534362390528" and n = "12740053179193383561 / 1237940039285380274899124224"]
    by simp
  have t8: "4435248145590105 / 1237940039285380274899124224 \<le> x ^ 8 / 40320 \<and> x ^ 8 / 40320 \<le> 2217624072795053 / 618970019642690137449562112"
    using bounds_divide [OF b8, where c = "40320" and m = "4435248145590105 / 1237940039285380274899124224" and n = "2217624072795053 / 618970019642690137449562112"]
    by simp
  have t10: "480374700879 / 618970019642690137449562112 \<le> x ^ 10 / 3628800 \<and> x ^ 10 / 3628800 \<le> 960749401759 / 1237940039285380274899124224"
    using bounds_divide [OF b10, where c = "3628800" and m = "480374700879 / 618970019642690137449562112" and n = "960749401759 / 1237940039285380274899124224"]
    by simp
  have t12: "35474061 / 309485009821345068724781056 \<le> x ^ 12 / 479001600 \<and> x ^ 12 / 479001600 \<le> 141896245 / 1237940039285380274899124224"
    using bounds_divide [OF b12, where c = "479001600" and m = "35474061 / 309485009821345068724781056" and n = "141896245 / 1237940039285380274899124224"]
    by simp
  have t14: "15199 / 1237940039285380274899124224 \<le> x ^ 14 / 87178291200 \<and> x ^ 14 / 87178291200 \<le> 475 / 38685626227668133590597632"
    using bounds_divide [OF b14, where c = "87178291200" and m = "15199 / 1237940039285380274899124224" and n = "475 / 38685626227668133590597632"]
    by simp
  have s0: "1 \<le> (1 :: real) \<and> (1 :: real) \<le> 1"
    by simp
  have s2: "1225872900065611660325910039 / 1237940039285380274899124224 \<le> 1 - x ^ 2 / 2 \<and> 1 - x ^ 2 / 2 \<le> 153234112508201457540738755 / 154742504910672534362390528"
    using bounds_diff [OF s0 t2, where m = "1225872900065611660325910039 / 1237940039285380274899124224" and n = "153234112508201457540738755 / 154742504910672534362390528"]
    by simp
  have s4: "1225892504656616102519072709 / 1237940039285380274899124224 \<le> 1 - x ^ 2 / 2 + x ^ 4 / 24 \<and> 1 - x ^ 2 / 2 + x ^ 4 / 24 \<le> 1225892504656616102519072711 / 1237940039285380274899124224"
    using bounds_add [OF s2 t4, where m = "1225892504656616102519072709 / 1237940039285380274899124224" and n = "1225892504656616102519072711 / 1237940039285380274899124224"]
    by simp
  have s6: "306473122979140730831422287 / 309485009821345068724781056 \<le> 1 - x ^ 2 / 2 + x ^ 4 / 24 - x ^ 6 / 720 \<and> 1 - x ^ 2 / 2 + x ^ 4 / 24 - x ^ 6 / 720 \<le> 1225892491916562923325689151 / 1237940039285380274899124224"
    using bounds_diff [OF s4 t6, where m = "306473122979140730831422287 / 309485009821345068724781056" and n = "1225892491916562923325689151 / 1237940039285380274899124224"]
    by simp
  have s8: "1225892491920998171471279253 / 1237940039285380274899124224 \<le> 1 - x ^ 2 / 2 + x ^ 4 / 24 - x ^ 6 / 720 + x ^ 8 / 40320 \<and> 1 - x ^ 2 / 2 + x ^ 4 / 24 - x ^ 6 / 720 + x ^ 8 / 40320 \<le> 1225892491920998171471279257 / 1237940039285380274899124224"
    using bounds_add [OF s6 t8, where m = "1225892491920998171471279253 / 1237940039285380274899124224" and n = "1225892491920998171471279257 / 1237940039285380274899124224"]
    by simp
  have s10: "612946245960498605360938747 / 618970019642690137449562112 \<le> 1 - x ^ 2 / 2 + x ^ 4 / 24 - x ^ 6 / 720 + x ^ 8 / 40320 - x ^ 10 / 3628800 \<and> 1 - x ^ 2 / 2 + x ^ 4 / 24 - x ^ 6 / 720 + x ^ 8 / 40320 - x ^ 10 / 3628800 \<le> 1225892491920997210721877499 / 1237940039285380274899124224"
    using bounds_diff [OF s8 t10, where m = "612946245960498605360938747 / 618970019642690137449562112" and n = "1225892491920997210721877499 / 1237940039285380274899124224"]
    by simp
  have s12: "612946245960498605431886869 / 618970019642690137449562112 \<le> 1 - x ^ 2 / 2 + x ^ 4 / 24 - x ^ 6 / 720 + x ^ 8 / 40320 - x ^ 10 / 3628800 + x ^ 12 / 479001600 \<and> 1 - x ^ 2 / 2 + x ^ 4 / 24 - x ^ 6 / 720 + x ^ 8 / 40320 - x ^ 10 / 3628800 + x ^ 12 / 479001600 \<le> 76618280745062325678985859 / 77371252455336267181195264"
    using bounds_add [OF s10 t12, where m = "612946245960498605431886869 / 618970019642690137449562112" and n = "76618280745062325678985859 / 77371252455336267181195264"]
    by simp
  obtain t where "cos x = (\<Sum>m<14. cos_coeff m * x ^ m) + cos (t + 1 / 2 * real 14 * pi) / fact 14 * x ^ 14"
    using Maclaurin_cos_expansion [of x 14] by blast
  then have e: "cos x - (1 - x ^ 2 / 2 + x ^ 4 / 24 - x ^ 6 / 720 + x ^ 8 / 40320 - x ^ 10 / 3628800 + x ^ 12 / 479001600) = cos (t + 1 / 2 * real 14 * pi) * (x ^ 14 / 87178291200)"
    unfolding cos_poly_14 by (simp add: fact_numeral)
  have "\<bar>cos (t + 1 / 2 * real 14 * pi) * (x ^ 14 / 87178291200)\<bar> \<le> 1 * \<bar>x ^ 14 / 87178291200\<bar>"
    unfolding abs_mult by (intro mult_right_mono) simp_all
  then have r: "\<bar>cos x - (1 - x ^ 2 / 2 + x ^ 4 / 24 - x ^ 6 / 720 + x ^ 8 / 40320 - x ^ 10 / 3628800 + x ^ 12 / 479001600)\<bar> \<le> x ^ 14 / 87178291200"
    unfolding e using x0 by simp
  have "17839083621525747 / 18014398509481984 < cos x \<and> cos x < 17839083621525749 / 18014398509481984"
    using bounds_remainder [OF r s12 t14, where m = "17839083621525747 / 18014398509481984" and n = "17839083621525749 / 18014398509481984"]
    by simp
  then show ?thesis
    unfolding x_def .
qed

text \<open>The sine of 1.5707963267948966 is above the midpoint of 1 and the double before it.\<close>

lemma sin_half_pi_interval:
  "18014398509481983 / 18014398509481984 < sin (884279719003555 / 562949953421312 :: real) \<and> sin (884279719003555 / 562949953421312 :: real) < 2"
proof -
  define x :: real where "x = 884279719003555 / 562949953421312"
  have x0: "0 \<le> x"
    by (simp add: x_def)
  have x2: "x ^ 2 = 781950621441006189802102638025 / 316912650057057350374175801344"
    by (simp add: x_def power_divide)
  have b3: "4797988921462965649191492491 / 1237940039285380274899124224 \<le> x ^ 3 \<and> x ^ 3 \<le> 1199497230365741412297873123 / 309485009821345068724781056"
    by (simp add: x_def power_divide)
  have b5: "11838563143912216775269256323 / 1237940039285380274899124224 \<le> x ^ 5 \<and> x ^ 5 \<le> 5919281571956108387634628163 / 618970019642690137449562112"
    using power_bounds_step [OF b3 x2, where m = "11838563143912216775269256323 / 1237940039285380274899124224" and n = "5919281571956108387634628163 / 618970019642690137449562112"]
    by simp
  have b7: "29210483726932569896247398769 / 1237940039285380274899124224 \<le> x ^ 7 \<and> x ^ 7 \<le> 29210483726932569896247398777 / 1237940039285380274899124224"
    using power_bounds_step [OF b5 x2, where m = "29210483726932569896247398769 / 1237940039285380274899124224" and n = "29210483726932569896247398777 / 1237940039285380274899124224"]
    by simp
  have b9: "36036989843660345010378613987 / 618970019642690137449562112 \<le> x ^ 9 \<and> x ^ 9 \<le> 72073979687320690020757227995 / 1237940039285380274899124224"
    using power_bounds_step [OF b7 x2, where m = "36036989843660345010378613987 / 618970019642690137449562112" and n = "72073979687320690020757227995 / 1237940039285380274899124224"]
    by simp
  have b11: "88917708390750657743418181645 / 618970019642690137449562112 \<le> x ^ 11 \<and> x ^ 11 \<le> 177835416781501315486836363343 / 1237940039285380274899124224"
    using power_bounds_step [OF b9 x2, where m = "88917708390750657743418181645 / 618970019642690137449562112" and n = "177835416781501315486836363343 / 1237940039285380274899124224"]
    by simp
  have b13: "219395651517033203637613602703 / 618970019642690137449562112 \<le> x ^ 13 \<and> x ^ 13 \<le> 438791303034066407275227205537 / 1237940039285380274899124224"
    using power_bounds_step [OF b11 x2, where m = "219395651517033203637613602703 / 618970019642690137449562112" and n = "438791303034066407275227205537 / 1237940039285380274899124224"]
    by simp
  have b15: "541337071948094489166195437047 / 618970019642690137449562112 \<le> x ^ 15 \<and> x ^ 15 \<le> 541337071948094489166195437209 / 618970019642690137449562112"
    using power_bounds_step [OF b13 x2, where m = "541337071948094489166195437047 / 618970019642690137449562112" and n = "541337071948094489166195437209 / 618970019642690137449562112"]
    by simp
  have b17: "83480980433933433287031472171 / 38685626227668133590597632 \<le> x ^ 17 \<and> x ^ 17 \<le> 2671391373885869865185007110273 / 1237940039285380274899124224"
    using power_bounds_step [OF b15 x2, where m = "83480980433933433287031472171 / 38685626227668133590597632" and n = "2671391373885869865185007110273 / 1237940039285380274899124224"]
    by simp
  have b19: "6591394015184031870282279641055 / 1237940039285380274899124224 \<le> x ^ 19 \<and> x ^ 19 \<le> 823924251898003983785284955379 / 154742504910672534362390528"
    using power_bounds_step [OF b17 x2, where m = "6591394015184031870282279641055 / 1237940039285380274899124224" and n = "823924251898003983785284955379 / 154742504910672534362390528"]
    by simp
  have b21: "16263612845393593641346106057621 / 1237940039285380274899124224 \<le> x ^ 21 \<and> x ^ 21 \<le> 4065903211348398410336526515625 / 309485009821345068724781056"
    using power_bounds_step [OF b19 x2, where m = "16263612845393593641346106057621 / 1237940039285380274899124224" and n = "4065903211348398410336526515625 / 309485009821345068724781056"]
    by simp
  have b23: "40128856229127506461656059940235 / 1237940039285380274899124224 \<le> x ^ 23 \<and> x ^ 23 \<le> 20064428114563753230828029976137 / 618970019642690137449562112"
    using power_bounds_step [OF b21 x2, where m = "40128856229127506461656059940235 / 1237940039285380274899124224" and n = "20064428114563753230828029976137 / 618970019642690137449562112"]
    by simp
  have t3: "799664820243827608198582081 / 1237940039285380274899124224 \<le> x ^ 3 / 6 \<and> x ^ 3 / 6 \<le> 399832410121913804099291041 / 618970019642690137449562112"
    using bounds_divide [OF b3, where c = "6" and m = "799664820243827608198582081 / 1237940039285380274899124224" and n = "399832410121913804099291041 / 618970019642690137449562112"]
    by simp
  have t5: "98654692865935139793910469 / 1237940039285380274899124224 \<le> x ^ 5 / 120 \<and> x ^ 5 / 120 \<le> 49327346432967569896955235 / 618970019642690137449562112"
    using bounds_divide [OF b5, where c = "120" and m = "98654692865935139793910469 / 1237940039285380274899124224" and n = "49327346432967569896955235 / 618970019642690137449562112"]
    by simp
  have t7: "724466362275113340680739 / 154742504910672534362390528 \<le> x ^ 7 / 5040 \<and> x ^ 7 / 5040 \<le> 5795730898200906725445913 / 1237940039285380274899124224"
    using bounds_divide [OF b7, where c = "5040" and m = "724466362275113340680739 / 154742504910672534362390528" and n = "5795730898200906725445913 / 1237940039285380274899124224"]
    by simp
  have t9: "198616566598657104334097 / 1237940039285380274899124224 \<le> x ^ 9 / 362880 \<and> x ^ 9 / 362880 \<le> 99308283299328552167049 / 618970019642690137449562112"
    using bounds_divide [OF b9, where c = "362880" and m = "198616566598657104334097 / 1237940039285380274899124224" and n = "99308283299328552167049 / 618970019642690137449562112"]
    by simp
  have t11: "4455152135980372061057 / 1237940039285380274899124224 \<le> x ^ 11 / 39916800 \<and> x ^ 11 / 39916800 \<le> 2227576067990186030529 / 618970019642690137449562112"
    using bounds_divide [OF b11, where c = "39916800" and m = "4455152135980372061057 / 1237940039285380274899124224" and n = "2227576067990186030529 / 618970019642690137449562112"]
    by simp
  have t13: "17616421926600373941 / 309485009821345068724781056 \<le> x ^ 13 / 6227020800 \<and> x ^ 13 / 6227020800 \<le> 70465687706401495765 / 1237940039285380274899124224"
    using bounds_divide [OF b13, where c = "6227020800" and m = "17616421926600373941 / 309485009821345068724781056" and n = "70465687706401495765 / 1237940039285380274899124224"]
    by simp
  have t15: "206984661164550137 / 309485009821345068724781056 \<le> x ^ 15 / 1307674368000 \<and> x ^ 15 / 1307674368000 \<le> 827938644658200549 / 1237940039285380274899124224"
    using bounds_divide [OF b15, where c = "1307674368000" and m = "206984661164550137 / 309485009821345068724781056" and n = "827938644658200549 / 1237940039285380274899124224"]
    by simp
  have t17: "1877625664326869 / 309485009821345068724781056 \<le> x ^ 17 / 355687428096000 \<and> x ^ 17 / 355687428096000 \<le> 7510502657307477 / 1237940039285380274899124224"
    using bounds_divide [OF b17, where c = "355687428096000" and m = "1877625664326869 / 309485009821345068724781056" and n = "7510502657307477 / 1237940039285380274899124224"]
    by simp
  have t19: "27092722982805 / 618970019642690137449562112 \<le> x ^ 19 / 121645100408832000 \<and> x ^ 19 / 121645100408832000 \<le> 54185445965611 / 1237940039285380274899124224"
    using bounds_divide [OF b19, where c = "121645100408832000" and m = "27092722982805 / 618970019642690137449562112" and n = "54185445965611 / 1237940039285380274899124224"]
    by simp
  have t21: "79581683925 / 309485009821345068724781056 \<le> x ^ 21 / 51090942171709440000 \<and> x ^ 21 / 51090942171709440000 \<le> 318326735701 / 1237940039285380274899124224"
    using bounds_divide [OF b21, where c = "51090942171709440000" and m = "79581683925 / 309485009821345068724781056" and n = "318326735701 / 1237940039285380274899124224"]
    by simp
  have t23: "776126223 / 618970019642690137449562112 \<le> x ^ 23 / 25852016738884976640000 \<and> x ^ 23 / 25852016738884976640000 \<le> 1552252447 / 1237940039285380274899124224"
    using bounds_divide [OF b23, where c = "25852016738884976640000" and m = "776126223 / 618970019642690137449562112" and n = "1552252447 / 1237940039285380274899124224"]
    by simp
  have s1: "884279719003555 / 562949953421312 \<le> x \<and> x \<le> 884279719003555 / 562949953421312"
    by (simp add: x_def)
  have s3: "572443423128988834681452639 / 618970019642690137449562112 \<le> x - x ^ 3 / 6 \<and> x - x ^ 3 / 6 \<le> 1144886846257977669362905279 / 1237940039285380274899124224"
    using bounds_diff [OF s1 t3, where m = "572443423128988834681452639 / 618970019642690137449562112" and n = "1144886846257977669362905279 / 1237940039285380274899124224"]
    by simp
  have s5: "1243541539123912809156815747 / 1237940039285380274899124224 \<le> x - x ^ 3 / 6 + x ^ 5 / 120 \<and> x - x ^ 3 / 6 + x ^ 5 / 120 \<le> 1243541539123912809156815749 / 1237940039285380274899124224"
    using bounds_add [OF s3 t5, where m = "1243541539123912809156815747 / 1237940039285380274899124224" and n = "1243541539123912809156815749 / 1237940039285380274899124224"]
    by simp
  have s7: "618872904112855951215684917 / 618970019642690137449562112 \<le> x - x ^ 3 / 6 + x ^ 5 / 120 - x ^ 7 / 5040 \<and> x - x ^ 3 / 6 + x ^ 5 / 120 - x ^ 7 / 5040 \<le> 1237745808225711902431369837 / 1237940039285380274899124224"
    using bounds_diff [OF s5 t7, where m = "618872904112855951215684917 / 618970019642690137449562112" and n = "1237745808225711902431369837 / 1237940039285380274899124224"]
    by simp
  have s9: "1237944424792310559535703931 / 1237940039285380274899124224 \<le> x - x ^ 3 / 6 + x ^ 5 / 120 - x ^ 7 / 5040 + x ^ 9 / 362880 \<and> x - x ^ 3 / 6 + x ^ 5 / 120 - x ^ 7 / 5040 + x ^ 9 / 362880 \<le> 1237944424792310559535703935 / 1237940039285380274899124224"
    using bounds_add [OF s7 t9, where m = "1237944424792310559535703931 / 1237940039285380274899124224" and n = "1237944424792310559535703935 / 1237940039285380274899124224"]
    by simp
  have s11: "1237939969640174579163642873 / 1237940039285380274899124224 \<le> x - x ^ 3 / 6 + x ^ 5 / 120 - x ^ 7 / 5040 + x ^ 9 / 362880 - x ^ 11 / 39916800 \<and> x - x ^ 3 / 6 + x ^ 5 / 120 - x ^ 7 / 5040 + x ^ 9 / 362880 - x ^ 11 / 39916800 \<le> 618969984820087289581821439 / 618970019642690137449562112"
    using bounds_diff [OF s9 t11, where m = "1237939969640174579163642873 / 1237940039285380274899124224" and n = "618969984820087289581821439 / 618970019642690137449562112"]
    by simp
  have s13: "1237940040105862285565138637 / 1237940039285380274899124224 \<le> x - x ^ 3 / 6 + x ^ 5 / 120 - x ^ 7 / 5040 + x ^ 9 / 362880 - x ^ 11 / 39916800 + x ^ 13 / 6227020800 \<and> x - x ^ 3 / 6 + x ^ 5 / 120 - x ^ 7 / 5040 + x ^ 9 / 362880 - x ^ 11 / 39916800 + x ^ 13 / 6227020800 \<le> 1237940040105862285565138643 / 1237940039285380274899124224"
    using bounds_add [OF s11 t13, where m = "1237940040105862285565138637 / 1237940039285380274899124224" and n = "1237940040105862285565138643 / 1237940039285380274899124224"]
    by simp
  have s15: "154742504909740455113367261 / 154742504910672534362390528 \<le> x - x ^ 3 / 6 + x ^ 5 / 120 - x ^ 7 / 5040 + x ^ 9 / 362880 - x ^ 11 / 39916800 + x ^ 13 / 6227020800 - x ^ 15 / 1307674368000 \<and> x - x ^ 3 / 6 + x ^ 5 / 120 - x ^ 7 / 5040 + x ^ 9 / 362880 - x ^ 11 / 39916800 + x ^ 13 / 6227020800 - x ^ 15 / 1307674368000 \<le> 1237940039277923640906938095 / 1237940039285380274899124224"
    using bounds_diff [OF s13 t15, where m = "154742504909740455113367261 / 154742504910672534362390528" and n = "1237940039277923640906938095 / 1237940039285380274899124224"]
    by simp
  have s17: "309485009821358535891061391 / 309485009821345068724781056 \<le> x - x ^ 3 / 6 + x ^ 5 / 120 - x ^ 7 / 5040 + x ^ 9 / 362880 - x ^ 11 / 39916800 + x ^ 13 / 6227020800 - x ^ 15 / 1307674368000 + x ^ 17 / 355687428096000 \<and> x - x ^ 3 / 6 + x ^ 5 / 120 - x ^ 7 / 5040 + x ^ 9 / 362880 - x ^ 11 / 39916800 + x ^ 13 / 6227020800 - x ^ 15 / 1307674368000 + x ^ 17 / 355687428096000 \<le> 309485009821358535891061393 / 309485009821345068724781056"
    using bounds_add [OF s15 t17, where m = "309485009821358535891061391 / 309485009821345068724781056" and n = "309485009821358535891061393 / 309485009821345068724781056"]
    by simp
  have s19: "1237940039285379958118279953 / 1237940039285380274899124224 \<le> x - x ^ 3 / 6 + x ^ 5 / 120 - x ^ 7 / 5040 + x ^ 9 / 362880 - x ^ 11 / 39916800 + x ^ 13 / 6227020800 - x ^ 15 / 1307674368000 + x ^ 17 / 355687428096000 - x ^ 19 / 121645100408832000 \<and> x - x ^ 3 / 6 + x ^ 5 / 120 - x ^ 7 / 5040 + x ^ 9 / 362880 - x ^ 11 / 39916800 + x ^ 13 / 6227020800 - x ^ 15 / 1307674368000 + x ^ 17 / 355687428096000 - x ^ 19 / 121645100408832000 \<le> 618970019642689979059139981 / 618970019642690137449562112"
    using bounds_diff [OF s17 t19, where m = "1237940039285379958118279953 / 1237940039285380274899124224" and n = "618970019642689979059139981 / 618970019642690137449562112"]
    by simp
  have s21: "1237940039285380276445015653 / 1237940039285380274899124224 \<le> x - x ^ 3 / 6 + x ^ 5 / 120 - x ^ 7 / 5040 + x ^ 9 / 362880 - x ^ 11 / 39916800 + x ^ 13 / 6227020800 - x ^ 15 / 1307674368000 + x ^ 17 / 355687428096000 - x ^ 19 / 121645100408832000 + x ^ 21 / 51090942171709440000 \<and> x - x ^ 3 / 6 + x ^ 5 / 120 - x ^ 7 / 5040 + x ^ 9 / 362880 - x ^ 11 / 39916800 + x ^ 13 / 6227020800 - x ^ 15 / 1307674368000 + x ^ 17 / 355687428096000 - x ^ 19 / 121645100408832000 + x ^ 21 / 51090942171709440000 \<le> 1237940039285380276445015663 / 1237940039285380274899124224"
    using bounds_add [OF s19 t21, where m = "1237940039285380276445015653 / 1237940039285380274899124224" and n = "1237940039285380276445015663 / 1237940039285380274899124224"]
    by simp
  have f: "inverse (fact 23) * \<bar>x\<bar> ^ 23 = x ^ 23 / 25852016738884976640000"
    using x0 by (simp add: fact_numeral)
  have r: "\<bar>sin x - (x - x ^ 3 / 6 + x ^ 5 / 120 - x ^ 7 / 5040 + x ^ 9 / 362880 - x ^ 11 / 39916800 + x ^ 13 / 6227020800 - x ^ 15 / 1307674368000 + x ^ 17 / 355687428096000 - x ^ 19 / 121645100408832000 + x ^ 21 / 51090942171709440000)\<bar> \<le> x ^ 23 / 25852016738884976640000"
    using Maclaurin_sin_bound [of x 23] unfolding sin_poly_23 f .
  have "18014398509481983 / 18014398509481984 < sin x \<and> sin x < 2"
    using bounds_remainder [OF r s21 t23, where m = "18014398509481983 / 18014398509481984" and n = "2"]
    by simp
  then show ?thesis
    unfolding x_def .
qed

lemma round_even_between:
  assumes "of_int m - 1 / 2 < y" and "y < of_int m + 1 / 2"
  shows "round_even y = m"
proof (cases "of_int m \<le> y")
  case True
  have "\<lfloor>y\<rfloor> = m"
    using True assms(2) by (intro floor_unique) simp_all
  then show ?thesis
    using assms(2) by (simp add: round_even_def Let_def)
next
  case False
  have "\<lfloor>y\<rfloor> = m - 1"
    using False assms(1) by (intro floor_unique) simp_all
  then show ?thesis
    using assms(1) by (simp add: round_even_def Let_def)
qed

lemma to_double_between:
  assumes "2 powi e \<le> \<bar>x\<bar>" and "\<bar>x\<bar> < 2 powi (e + 1)" and "- 1022 \<le> e"
    and "(of_int m - 1 / 2) * 2 powi (e - 52) < x"
    and "x < (of_int m + 1 / 2) * 2 powi (e - 52)"
    and "\<bar>of_int m * 2 powi (e - 52)\<bar> < (2::real) ^ 1024"
  shows "to_double x = Fin (of_int m * 2 powi (e - 52))"
proof -
  have u: "0 < (2::real) powi (e - 52)"
    by simp
  have "of_int m - 1 / 2 < x / 2 powi (e - 52)"
    using assms(4) u by (simp only: pos_less_divide_eq)
  moreover have "x / 2 powi (e - 52) < of_int m + 1 / 2"
    using assms(5) u by (simp only: pos_divide_less_eq)
  ultimately have r: "round_even (x / 2 powi (e - 52)) = m"
    by (rule round_even_between)
  show ?thesis
    by (rule to_double_eq [OF assms(1-3) r assms(6)])
qed

text \<open>
  The values of sine and cosine that the lemmas on (8, 0) and (-8, 180) take as premises
  are the mathematical values of the two functions, rounded to the nearest double.
\<close>

lemma sine_rounded:
  "to_double (sin (5030569068109113 / 36028797018963968)) =
     Fin (5014239404989977 / 36028797018963968)"
proof -
  define y :: real where "y = sin (5030569068109113 / 36028797018963968)"
  have i: "10028478809979953 / 72057594037927936 < y" "y < 10028478809979955 / 72057594037927936"
    using sin_interval by (simp_all add: y_def)
  then have a: "\<bar>y\<bar> = y"
    by simp
  have "to_double y = Fin (of_int 5014239404989977 * 2 powi (- 3 - 52))"
    using i by (intro to_double_between) (simp_all add: a)
  then show ?thesis
    by (simp add: y_def)
qed

lemma cosine_rounded:
  "to_double (cos (5030569068109113 / 36028797018963968)) =
     Fin (4459770905381437 / 4503599627370496)"
proof -
  define y :: real where "y = cos (5030569068109113 / 36028797018963968)"
  have i: "17839083621525747 / 18014398509481984 < y" "y < 17839083621525749 / 18014398509481984"
    using cos_interval by (simp_all add: y_def)
  then have a: "\<bar>y\<bar> = y"
    by simp
  have "to_double y = Fin (of_int 8919541810762874 * 2 powi (- 1 - 52))"
    using i by (intro to_double_between) (simp_all add: a)
  then show ?thesis
    by (simp add: y_def)
qed

lemma sine_half_pi_rounded:
  "to_double (sin (884279719003555 / 562949953421312)) = Fin 1"
proof -
  define y :: real where "y = sin (884279719003555 / 562949953421312)"
  have i: "18014398509481983 / 18014398509481984 < y"
    using sin_half_pi_interval by (simp add: y_def)
  then have a: "\<bar>y\<bar> = y"
    by simp
  have le: "y \<le> 1"
    by (simp add: y_def)
  have "to_double y = Fin 1"
  proof (cases "y = 1")
    case True
    then show ?thesis
      by (simp add: to_double_1)
  next
    case False
    with le have "y < 1"
      by simp
    then have "to_double y = Fin (of_int 9007199254740992 * 2 powi (- 1 - 52))"
      using i by (intro to_double_between) (simp_all add: a)
    then show ?thesis
      by simp
  qed
  then show ?thesis
    by (simp add: y_def)
qed

subsection \<open>The points (8, 0) and (-8, 180)\<close>

text \<open>
  The steps of the formula at these two points, each the exact result rounded. The angles
  are 0.13962634015954636 and 1.5707963267948966; the sine and cosine a platform returns
  there are premises of the lemmas that use them.
\<close>

lemma mul_8_pi: "js_mul (Fin 8) (Fin (884279719003555 / 281474976710656)) = (Fin (884279719003555 / 35184372088832))"
  using to_double_eq [where e = 4 and m = 7074237752028440 and x = "(8) * (884279719003555 / 281474976710656)"]
  by (simp add: round_even_def)

lemma phi_8: "js_div (Fin (884279719003555 / 35184372088832)) (Fin 180) = (Fin (5030569068109113 / 36028797018963968))"
  using to_double_eq [where e = "- 3" and m = 5030569068109113 and x = "(884279719003555 / 35184372088832) / (180)"]
  by (simp add: round_even_def)

lemma mul_m8_pi: "js_mul (Fin (- 8)) (Fin (884279719003555 / 281474976710656)) = (Fin (- (884279719003555 / 35184372088832)))"
  using to_double_eq [where e = 4 and m = "- 7074237752028440" and x = "(- 8) * (884279719003555 / 281474976710656)"]
  by (simp add: round_even_def)

lemma phi_m8: "js_div (Fin (- (884279719003555 / 35184372088832))) (Fin 180) = (Fin (- (5030569068109113 / 36028797018963968)))"
  using to_double_eq [where e = "- 3" and m = "- 5030569068109113" and x = "(- (884279719003555 / 35184372088832)) / (180)"]
  by (simp add: round_even_def)

lemma sub_m8_8: "js_sub (Fin (- 8)) (Fin 8) = (Fin (- 16))"
  using to_double_eq [where e = 4 and m = "- 4503599627370496" and x = "(- 8) - (8)"]
  by (simp add: round_even_def)

lemma mul_m16_pi: "js_mul (Fin (- 16)) (Fin (884279719003555 / 281474976710656)) = (Fin (- (884279719003555 / 17592186044416)))"
  using to_double_eq [where e = 5 and m = "- 7074237752028440" and x = "(- 16) * (884279719003555 / 281474976710656)"]
  by (simp add: round_even_def)

lemma dphi_fwd: "js_div (Fin (- (884279719003555 / 17592186044416))) (Fin 180) = (Fin (- (5030569068109113 / 18014398509481984)))"
  using to_double_eq [where e = "- 2" and m = "- 5030569068109113" and x = "(- (884279719003555 / 17592186044416)) / (180)"]
  by (simp add: round_even_def)

lemma half_dphi_fwd: "js_div (Fin (- (5030569068109113 / 18014398509481984))) (Fin 2) = (Fin (- (5030569068109113 / 36028797018963968)))"
  using to_double_eq [where e = "- 3" and m = "- 5030569068109113" and x = "(- (5030569068109113 / 18014398509481984)) / (2)"]
  by (simp add: round_even_def)

lemma sub_8_m8: "js_sub (Fin 8) (Fin (- 8)) = (Fin 16)"
  using to_double_eq [where e = 4 and m = 4503599627370496 and x = "(8) - (- 8)"]
  by (simp add: round_even_def)

lemma mul_16_pi: "js_mul (Fin 16) (Fin (884279719003555 / 281474976710656)) = (Fin (884279719003555 / 17592186044416))"
  using to_double_eq [where e = 5 and m = 7074237752028440 and x = "(16) * (884279719003555 / 281474976710656)"]
  by (simp add: round_even_def)

lemma dphi_rev: "js_div (Fin (884279719003555 / 17592186044416)) (Fin 180) = (Fin (5030569068109113 / 18014398509481984))"
  using to_double_eq [where e = "- 2" and m = 5030569068109113 and x = "(884279719003555 / 17592186044416) / (180)"]
  by (simp add: round_even_def)

lemma half_dphi_rev: "js_div (Fin (5030569068109113 / 18014398509481984)) (Fin 2) = (Fin (5030569068109113 / 36028797018963968))"
  using to_double_eq [where e = "- 3" and m = 5030569068109113 and x = "(5030569068109113 / 18014398509481984) / (2)"]
  by (simp add: round_even_def)

lemma sub_180_0: "js_sub (Fin 180) (Fin 0) = (Fin 180)"
  using to_double_eq [where e = 7 and m = 6333186975989760 and x = "(180) - (0)"]
  by (simp add: round_even_def)

lemma mul_180_pi: "js_mul (Fin 180) (Fin (884279719003555 / 281474976710656)) = (Fin (4974073419394997 / 8796093022208))"
  using to_double_eq [where e = 9 and m = 4974073419394997 and x = "(180) * (884279719003555 / 281474976710656)"]
  by (simp add: round_even_def)

lemma dl_fwd: "js_div (Fin (4974073419394997 / 8796093022208)) (Fin 180) = (Fin (884279719003555 / 281474976710656))"
  using to_double_eq [where e = 1 and m = 7074237752028440 and x = "(4974073419394997 / 8796093022208) / (180)"]
  by (simp add: round_even_def)

lemma half_dl_fwd: "js_div (Fin (884279719003555 / 281474976710656)) (Fin 2) = (Fin (884279719003555 / 562949953421312))"
  using to_double_eq [where e = 0 and m = 7074237752028440 and x = "(884279719003555 / 281474976710656) / (2)"]
  by (simp add: round_even_def)

lemma sub_0_180: "js_sub (Fin 0) (Fin 180) = (Fin (- 180))"
  using to_double_eq [where e = 7 and m = "- 6333186975989760" and x = "(0) - (180)"]
  by (simp add: round_even_def)

lemma mul_m180_pi: "js_mul (Fin (- 180)) (Fin (884279719003555 / 281474976710656)) = (Fin (- (4974073419394997 / 8796093022208)))"
  using to_double_eq [where e = 9 and m = "- 4974073419394997" and x = "(- 180) * (884279719003555 / 281474976710656)"]
  by (simp add: round_even_def)

lemma dl_rev: "js_div (Fin (- (4974073419394997 / 8796093022208))) (Fin 180) = (Fin (- (884279719003555 / 281474976710656)))"
  using to_double_eq [where e = 1 and m = "- 7074237752028440" and x = "(- (4974073419394997 / 8796093022208)) / (180)"]
  by (simp add: round_even_def)

lemma half_dl_rev: "js_div (Fin (- (884279719003555 / 281474976710656))) (Fin 2) = (Fin (- (884279719003555 / 562949953421312)))"
  using to_double_eq [where e = 0 and m = "- 7074237752028440" and x = "(- (884279719003555 / 281474976710656)) / (2)"]
  by (simp add: round_even_def)

lemma sin_sq_neg: "js_mul (Fin (- (5014239404989977 / 36028797018963968))) (Fin (- (5014239404989977 / 36028797018963968))) = (Fin (1395694493897217 / 72057594037927936))"
  using to_double_eq [where e = "- 6" and m = 5582777975588868 and x = "(- (5014239404989977 / 36028797018963968)) * (- (5014239404989977 / 36028797018963968))"]
  by (simp add: round_even_def)

lemma sin_sq_pos: "js_mul (Fin (5014239404989977 / 36028797018963968)) (Fin (5014239404989977 / 36028797018963968)) = (Fin (1395694493897217 / 72057594037927936))"
  using to_double_eq [where e = "- 6" and m = 5582777975588868 and x = "(5014239404989977 / 36028797018963968) * (5014239404989977 / 36028797018963968)"]
  by (simp add: round_even_def)

lemma cos_sq: "js_mul (Fin (4459770905381437 / 4503599627370496)) (Fin (4459770905381437 / 4503599627370496)) = (Fin (8832737443003841 / 9007199254740992))"
  using to_double_eq [where e = "- 1" and m = 8832737443003841 and x = "(4459770905381437 / 4503599627370496) * (4459770905381437 / 4503599627370496)"]
  by (simp add: round_even_def)

lemma cos_sq_one: "js_mul (Fin (8832737443003841 / 9007199254740992)) (Fin 1) = (Fin (8832737443003841 / 9007199254740992))"
  using to_double_eq [where e = "- 1" and m = 8832737443003841 and x = "(8832737443003841 / 9007199254740992) * (1)"]
  by (simp add: round_even_def)

lemma cos_sq_mone: "js_mul (Fin (8832737443003841 / 9007199254740992)) (Fin (- 1)) = (Fin (- (8832737443003841 / 9007199254740992)))"
  using to_double_eq [where e = "- 1" and m = "- 8832737443003841" and x = "(8832737443003841 / 9007199254740992) * (- 1)"]
  by (simp add: round_even_def)

lemma cos_sq_mone_mone: "js_mul (Fin (- (8832737443003841 / 9007199254740992))) (Fin (- 1)) = (Fin (8832737443003841 / 9007199254740992))"
  using to_double_eq [where e = "- 1" and m = 8832737443003841 and x = "(- (8832737443003841 / 9007199254740992)) * (- 1)"]
  by (simp add: round_even_def)

lemma a_sum: "js_add (Fin (1395694493897217 / 72057594037927936)) (Fin (8832737443003841 / 9007199254740992)) = (Fin (4503599627370497 / 4503599627370496))"
  using to_double_eq [where e = 0 and m = 4503599627370497 and x = "(1395694493897217 / 72057594037927936) + (8832737443003841 / 9007199254740992)"]
  by (simp add: round_even_def)

lemma haversine_a_fwd:
  assumes "Math_sin M (Fin (- (5030569068109113 / 36028797018963968))) =
             Fin (- (5014239404989977 / 36028797018963968))"
    and "Math_cos M (Fin (5030569068109113 / 36028797018963968)) =
             Fin (4459770905381437 / 4503599627370496)"
    and "Math_cos M (Fin (- (5030569068109113 / 36028797018963968))) =
             Fin (4459770905381437 / 4503599627370496)"
    and "Math_sin M (Fin (884279719003555 / 562949953421312)) = Fin 1"
  shows "haversine_a M (Fin 8) (Fin 0) (Fin (- 8)) (Fin 180) =
           Fin (4503599627370497 / 4503599627370496)"
  unfolding haversine_a_def Let_def Math_PI_def
  by (simp only: mul_8_pi phi_8 mul_m8_pi phi_m8 sub_m8_8 mul_m16_pi dphi_fwd half_dphi_fwd
      sub_180_0 mul_180_pi dl_fwd half_dl_fwd assms sin_sq_neg cos_sq cos_sq_one a_sum)

lemma haversine_a_rev:
  assumes "Math_sin M (Fin (5030569068109113 / 36028797018963968)) =
             Fin (5014239404989977 / 36028797018963968)"
    and "Math_cos M (Fin (5030569068109113 / 36028797018963968)) =
             Fin (4459770905381437 / 4503599627370496)"
    and "Math_cos M (Fin (- (5030569068109113 / 36028797018963968))) =
             Fin (4459770905381437 / 4503599627370496)"
    and "Math_sin M (Fin (- (884279719003555 / 562949953421312))) = Fin (- 1)"
  shows "haversine_a M (Fin (- 8)) (Fin 180) (Fin 8) (Fin 0) =
           Fin (4503599627370497 / 4503599627370496)"
  unfolding haversine_a_def Let_def Math_PI_def
  by (simp only: mul_8_pi phi_8 mul_m8_pi phi_m8 sub_8_m8 mul_16_pi dphi_rev half_dphi_rev
      sub_0_180 mul_m180_pi dl_rev half_dl_rev assms sin_sq_pos cos_sq cos_sq_mone
      cos_sq_mone_mone a_sum)

text \<open>
  Once \<open>a\<close> is above 1, that is at least the double after 1, \<open>1 - a\<close> rounds to a negative
  number, its square root is NaN, and nothing is left but NaN: the formula has no clamp
  of \<open>a\<close> to 1.
\<close>

lemma sqrt_of_rounded_negative:
  assumes "x \<le> - (1 / 2 ^ 52)"
  shows "Math_sqrt (to_double x) = NaN"
proof -
  have xneg: "x < 0" and xnz: "x \<noteq> 0"
    using assms by (smt (verit) divide_pos_pos zero_less_power zero_less_one)+
  define f where "f = \<lfloor>log 2 \<bar>x\<bar>\<rfloor>"
  define u :: real where "u = 2 powi ulp_exponent x"
  define m where "m = round_even (x / u)"
  have upos: "0 < u" by (simp add: u_def)
  have ax: "(2::real) powi (- 52) \<le> \<bar>x\<bar>"
    using assms by (simp add: power_int_minus_divide)
  have "(2::real) powr real_of_int (- 52) = 2 powi (- 52)"
    by (rule powr_real_of_int') simp_all
  then have "real_of_int (- 52) \<le> log 2 \<bar>x\<bar>"
    using ax xnz by (simp add: le_log_iff)
  then have f52: "- 52 \<le> f"
    unfolding f_def by (simp add: le_floor_iff)
  then have E: "ulp_exponent x = f - 52"
    by (simp add: ulp_exponent_def f_def)
  have "real_of_int f \<le> log 2 \<bar>x\<bar>"
    unfolding f_def by simp
  then have "2 powr real_of_int f \<le> \<bar>x\<bar>"
    using xnz by (simp add: le_log_iff)
  moreover have "(2::real) powr real_of_int f = 2 powi f"
    by (rule powr_real_of_int') simp_all
  ultimately have fx: "2 powi f \<le> \<bar>x\<bar>"
    by simp
  have "(2::real) powi (f - 52) \<le> 2 powi f"
    by (rule power_int_increasing) simp_all
  then have "u \<le> \<bar>x\<bar>"
    using fx by (simp add: u_def E)
  then have "x / u \<le> - 1"
    using upos xneg by (simp add: field_simps)
  then have "x / u \<le> of_int (- 1)"
    by simp
  then have m1: "m \<le> - 1"
    unfolding m_def by (rule round_even_le)
  then have "of_int m * u \<le> (- 1) * u"
    using upos by (intro mult_right_mono) simp_all
  then have neg: "of_int m * u < 0"
    using upos by linarith
  show ?thesis
    using xnz xneg neg
    by (simp add: to_double_def Let_def u_def [symmetric] m_def [symmetric])
qed

lemma not_a_number_above_one:
  assumes a: "haversine_a M lat1 lng1 lat2 lng2 = Fin r"
    and r: "1 + 1 / 2 ^ 52 \<le> r"
    and nan: "\<And>y. Math_atan2 M y NaN = NaN"
  shows "calculateDistance M lat1 lng1 lat2 lng2 = NaN \<and>
         mock_calculateDistance M lat1 lng1 lat2 lng2 = NaN"
proof -
  have "1 - r \<le> - (1 / 2 ^ 52)"
    using r by simp
  then have "Math_sqrt (js_sub (Fin 1) (Fin r)) = NaN"
    using sqrt_of_rounded_negative [of "1 - r"] by simp
  then show ?thesis
    unfolding calculateDistance_def mock_calculateDistance_def Let_def a
    by (simp only: nan js_mul.simps Math_round.simps simp_thms)
qed

text \<open>
  So a platform whose sine and cosine are correctly rounded, and whose \<open>atan2\<close> of
  not-a-number is not-a-number, returns NaN for (8, 0) and (-8, 180), in both orders and
  in both copies of the function.
\<close>

lemma correctly_rounded_not_a_number:
  assumes s: "\<And>x. Math_sin M (Fin x) = to_double (sin x)"
    and c: "\<And>x. Math_cos M (Fin x) = to_double (cos x)"
    and nan: "\<And>y. Math_atan2 M y NaN = NaN"
  shows "calculateDistance M (Fin 8) (Fin 0) (Fin (- 8)) (Fin 180) = NaN"
    and "mock_calculateDistance M (Fin 8) (Fin 0) (Fin (- 8)) (Fin 180) = NaN"
    and "calculateDistance M (Fin (- 8)) (Fin 180) (Fin 8) (Fin 0) = NaN"
    and "mock_calculateDistance M (Fin (- 8)) (Fin 180) (Fin 8) (Fin 0) = NaN"
proof -
  have s1: "Math_sin M (Fin (5030569068109113 / 36028797018963968)) =
      Fin (5014239404989977 / 36028797018963968)"
    by (simp only: s sine_rounded)
  have s2: "Math_sin M (Fin (- (5030569068109113 / 36028797018963968))) =
      Fin (- (5014239404989977 / 36028797018963968))"
    by (simp only: s sin_minus to_double_minus sine_rounded js_neg.simps)
  have c1: "Math_cos M (Fin (5030569068109113 / 36028797018963968)) =
      Fin (4459770905381437 / 4503599627370496)"
    by (simp only: c cosine_rounded)
  have c2: "Math_cos M (Fin (- (5030569068109113 / 36028797018963968))) =
      Fin (4459770905381437 / 4503599627370496)"
    by (simp only: c cos_minus cosine_rounded)
  have s3: "Math_sin M (Fin (884279719003555 / 562949953421312)) = Fin 1"
    by (simp only: s sine_half_pi_rounded)
  have s4: "Math_sin M (Fin (- (884279719003555 / 562949953421312))) = Fin (- 1)"
    by (simp only: s sin_minus to_double_minus sine_half_pi_rounded js_neg.simps)
  have above: "1 + 1 / 2 ^ 52 \<le> (4503599627370497 / 4503599627370496 :: real)"
    by simp
  have fwd: "calculateDistance M (Fin 8) (Fin 0) (Fin (- 8)) (Fin 180) = NaN \<and>
      mock_calculateDistance M (Fin 8) (Fin 0) (Fin (- 8)) (Fin 180) = NaN"
    using not_a_number_above_one [OF haversine_a_fwd [OF s2 c1 c2 s3] above nan] .
  have rev: "calculateDistance M (Fin (- 8)) (Fin 180) (Fin 8) (Fin 0) = NaN \<and>
      mock_calculateDistance M (Fin (- 8)) (Fin 180) (Fin 8) (Fin 0) = NaN"
    using not_a_number_above_one [OF haversine_a_rev [OF s1 c1 c2 s4] above nan] .
  from fwd rev
  show "calculateDistance M (Fin 8) (Fin 0) (Fin (- 8)) (Fin 180) = NaN"
    and "mock_calculateDistance M (Fin 8) (Fin 0) (Fin (- 8)) (Fin 180) = NaN"
    and "calculateDistance M (Fin (- 8)) (Fin 180) (Fin 8) (Fin 0) = NaN"
    and "mock_calculateDistance M (Fin (- 8)) (Fin 180) (Fin 8) (Fin 0) = NaN"
    by simp_all
qed

text \<open>
  C3. The distance function does not return a defined number for every valid pair. For
  (8, 0) and (-8, 180), on a platform whose sine and cosine return the correctly rounded
  values at the angles that occur (sin 0.13962634015954636 = 0.13917310096006544,
  cos 0.13962634015954636 = 0.9902680687415704, sin 1.5707963267948966 = 1) and whose
  \<open>atan2\<close> of not-a-number is not-a-number, the sum \<open>a\<close> rounds to 1.0000000000000002,
  \<open>Math.sqrt(1 - a)\<close> is NaN, and both copies of the function return NaN.
\<close>

theorem antipodal_distance_not_a_number:
  assumes "Math_sin M (Fin (- (5030569068109113 / 36028797018963968))) =
             Fin (- (5014239404989977 / 36028797018963968))"
    and "Math_cos M (Fin (5030569068109113 / 36028797018963968)) =
             Fin (4459770905381437 / 4503599627370496)"
    and "Math_cos M (Fin (- (5030569068109113 / 36028797018963968))) =
             Fin (4459770905381437 / 4503599627370496)"
    and "Math_sin M (Fin (884279719003555 / 562949953421312)) = Fin 1"
    and "\<And>y. Math_atan2 M y NaN = NaN"
  shows "calculateDistance M (Fin 8) (Fin 0) (Fin (- 8)) (Fin 180) = NaN \<and>
         mock_calculateDistance M (Fin 8) (Fin 0) (Fin (- 8)) (Fin 180) = NaN"
proof -
  have "1 + 1 / 2 ^ 52 \<le> (4503599627370497 / 4503599627370496 :: real)"
    by simp
  from not_a_number_above_one [OF haversine_a_fwd [OF assms(1-4)] this assms(5)]
  show ?thesis .
qed

theorem antipodal_distance_not_a_number_witness:
  "calculateDistance
     \<lparr>Math_sin = (\<lambda>a. if a = Fin (884279719003555 / 562949953421312) then Fin 1
                         else Fin (- (5014239404989977 / 36028797018963968))),
        Math_cos = (\<lambda>a. Fin (4459770905381437 / 4503599627370496)),
        Math_atan2 = (\<lambda>y x. if x = NaN then NaN else Fin 0)\<rparr>
     (Fin 8) (Fin 0) (Fin (- 8)) (Fin 180) = NaN"
  using antipodal_distance_not_a_number
    [where M = "\<lparr>Math_sin = (\<lambda>a. if a = Fin (884279719003555 / 562949953421312) then Fin 1
                         else Fin (- (5014239404989977 / 36028797018963968))),
        Math_cos = (\<lambda>a. Fin (4459770905381437 / 4503599627370496)),
        Math_atan2 = (\<lambda>y x. if x = NaN then NaN else Fin 0)\<rparr>"]
  by simp



section \<open>Properties of the hooks\<close>

subsection \<open>Building the request never throws\<close>

lemma append_param_total: "\<exists>q'. append_param parse q e = Some q'"
  by (cases "snd e") (auto simp: append_param_def Let_def)

lemma forEach_params_total: "\<exists>q'. forEach_params parse es q = Some q'"
proof (induction es arbitrary: q)
  case Nil
  show ?case by simp
next
  case (Cons e es)
  obtain q1 where "append_param parse q e = Some q1"
    using append_param_total by blast
  with Cons.IH [of q1] show ?case by simp
qed

lemma queryParams_total: "\<exists>q. queryParams parse params = Some q"
  unfolding queryParams_def by (rule forEach_params_total)

lemma fetchBusinesses_try_success:
  "fetchBusinesses_try parse params (HttpResponse True status (JsonData data)) s =
     Returned
       ((if js_get params ''offset'' = JNum (Fin 0) \<or> \<not> js_truthy (js_get params ''offset'')
         then s\<lparr>businesses := response_page data\<rparr>
         else s\<lparr>businesses := businesses s @ response_page data\<rparr>)
        \<lparr>total := (case data_total data of None \<Rightarrow> 0 | Some t \<Rightarrow> t),
         hasMore := (case data_has_more data of None \<Rightarrow> False | Some h \<Rightarrow> h)\<rparr>, data)"
proof -
  obtain q where "queryParams parse params = Some q"
    using queryParams_total by blast
  then show ?thesis
    by (simp add: fetchBusinesses_try_def Let_def)
qed

lemma fetchBusinesses_replace:
  assumes "js_get params ''offset'' = JNum (Fin 0) \<or> \<not> js_truthy (js_get params ''offset'')"
  shows "businesses (fst (fetchBusinesses parse params (HttpResponse True status (JsonData data)) s0))
         = response_page data"
  using assms by (simp add: fetchBusinesses_def fetchBusinesses_try_success Let_def)

lemma fetchBusinesses_append:
  assumes "js_get params ''offset'' = JNum (Fin r)" and "0 < r"
  shows "businesses (fst (fetchBusinesses parse params (HttpResponse True status (JsonData data)) s0))
         = businesses s0 @ response_page data"
  using assms
  by (simp add: fetchBusinesses_def fetchBusinesses_try_success fetchBusinesses_begin_def Let_def)

lemma fetchBusinesses_try_failure_cases:
  "fetchBusinesses_try parse params (FetchRejected m) s = Threw m"
  "fetchBusinesses_try parse params (HttpResponse False status body) s =
     Threw (''Failed to fetch businesses: '' @ nat_to_string status)"
  "fetchBusinesses_try parse params (HttpResponse True status (JsonRejected m)) s = Threw m"
proof -
  obtain q where q: "queryParams parse params = Some q"
    using queryParams_total by blast
  show "fetchBusinesses_try parse params (FetchRejected m) s = Threw m"
    using q by (simp add: fetchBusinesses_try_def)
  show "fetchBusinesses_try parse params (HttpResponse False status body) s =
     Threw (''Failed to fetch businesses: '' @ nat_to_string status)"
    using q by (simp add: fetchBusinesses_try_def)
  show "fetchBusinesses_try parse params (HttpResponse True status (JsonRejected m)) s = Threw m"
    using q by (simp add: fetchBusinesses_try_def)
qed

lemma fetchBusinesses_threw:
  assumes "fetchBusinesses_try parse params outcome (fetchBusinesses_begin s0) = Threw m"
  shows "fst (fetchBusinesses parse params outcome s0) = s0\<lparr>loading := False, error := Some m\<rparr>"
  using assms by (simp add: fetchBusinesses_def fetchBusinesses_begin_def Let_def)

lemma fetchBusinesses_not_loading:
  "\<not> loading (fst (fetchBusinesses parse params outcome s0))"
  by (simp add: fetchBusinesses_def Let_def split: attempt.split prod.split)

subsection \<open>Failure of a fetch\<close>

lemma message_or_nonempty: "fallback \<noteq> [] \<Longrightarrow> message_or m fallback \<noteq> []"
  by (simp add: message_or_def split: option.split)

lemma useStores_failure_resets:
  "stores (fetchStores (ApiRejected m) s0) = [] \<and>
   error (fetchStores (ApiRejected m) s0) = Some (message_or m ''Failed to fetch stores'') \<and>
   stores (searchStores (ApiRejected m) s0) = [] \<and>
   error (searchStores (ApiRejected m) s0) = Some (message_or m ''Failed to search stores'') \<and>
   stores (getNearbyStores (ApiRejected m) s0) = [] \<and>
   error (getNearbyStores (ApiRejected m) s0) = Some (message_or m ''Failed to fetch nearby stores'')"
  by (simp add: fetchStores_def searchStores_def getNearbyStores_def fetchStores_run_def
      searchStores_run_def getNearbyStores_run_def Let_def)

lemma fetchBusinesses_failure_state:
  assumes "fetchBusinesses_try parse params outcome (fetchBusinesses_begin s0) = Threw m"
  shows "businesses (fst (fetchBusinesses parse params outcome s0)) = businesses s0 \<and>
         error (fst (fetchBusinesses parse params outcome s0)) = Some m"
  using fetchBusinesses_threw [OF assms] by simp

lemma nat_to_string_500: "nat_to_string 500 = ''500''"
  by (simp add: nat_to_string.simps)

lemma fetchBusinesses_http_error:
  "error (fst (fetchBusinesses parse params (HttpResponse False 500 body) s0)) =
     Some ''Failed to fetch businesses: 500'' \<and>
   businesses (fst (fetchBusinesses parse params (HttpResponse False 500 body) s0)) = businesses s0"
  using fetchBusinesses_failure_state
    [OF fetchBusinesses_try_failure_cases(2), of parse params 500 body s0]
  by (simp add: nat_to_string_500)

text \<open>
  C1. After a failed fetch the error is set and the result set is empty, whatever it held
  before. \<open>useStores\<close> does so (\<open>useStores_failure_resets\<close>); \<open>fetchBusinesses\<close> sets the
  error but leaves the businesses it held: with one business in the state and a request
  that is rejected, the business is still there afterwards.
\<close>

theorem fetchBusinesses_failure_keeps_result_set:
  "businesses (fst (fetchBusinesses (\<lambda>t. NaN) [] (FetchRejected ''Failed to fetch'')
      \<lparr>loading = False, error = None, total = 1, hasMore = False,
       businesses = [\<lparr>business_id = 1, business_name = ''Lidl'', formatted_address = ''Valletta'',
                      latitude = JNum (Fin 35), longitude = JNum (Fin 14)\<rparr>],
       categories = []\<rparr>))
   = [\<lparr>business_id = 1, business_name = ''Lidl'', formatted_address = ''Valletta'',
       latitude = JNum (Fin 35), longitude = JNum (Fin 14)\<rparr>] \<and>
   error (fst (fetchBusinesses (\<lambda>t. NaN) [] (FetchRejected ''Failed to fetch'')
      \<lparr>loading = False, error = None, total = 1, hasMore = False,
       businesses = [\<lparr>business_id = 1, business_name = ''Lidl'', formatted_address = ''Valletta'',
                      latitude = JNum (Fin 35), longitude = JNum (Fin 14)\<rparr>],
       categories = []\<rparr>))
   = Some ''Failed to fetch''"
  by (simp add: fetchBusinesses_def fetchBusinesses_begin_def fetchBusinesses_try_def
      queryParams_def Let_def)

subsection \<open>Success of fetchBusinesses: replace or append\<close>

text \<open>
  C2. After a successful \<open>fetchBusinesses\<close>: with offset absent or 0 the businesses are
  exactly the page of the response; with offset greater than 0 they are the previous
  businesses followed by the page. The hook adds no record of its own, so when the
  previous businesses and the page are consecutive slices of one result list without
  duplicate ids (the pages of one query), the new state is the longer slice and has no
  duplicate id.
\<close>

theorem fetchBusinesses_success_result_set:
  "(js_get params ''offset'' = JUndefined \<or> js_get params ''offset'' = JNum (Fin 0) \<longrightarrow>
      businesses (fst (fetchBusinesses parse params (HttpResponse True status (JsonData data)) s0))
        = response_page data) \<and>
   (js_get params ''offset'' = JNum (Fin r) \<and> 0 < r \<longrightarrow>
      businesses (fst (fetchBusinesses parse params (HttpResponse True status (JsonData data)) s0))
        = businesses s0 @ response_page data \<and>
      (distinct (map business_id results) \<and> businesses s0 = take n results \<and>
       response_page data = take limit (drop n results) \<longrightarrow>
         businesses (fst (fetchBusinesses parse params (HttpResponse True status (JsonData data)) s0))
           = take (n + limit) results \<and>
         distinct (map business_id
           (businesses (fst (fetchBusinesses parse params (HttpResponse True status (JsonData data)) s0))))))"
proof (intro conjI impI)
  assume "js_get params ''offset'' = JUndefined \<or> js_get params ''offset'' = JNum (Fin 0)"
  then have "js_get params ''offset'' = JNum (Fin 0) \<or> \<not> js_truthy (js_get params ''offset'')"
    by auto
  then show "businesses (fst (fetchBusinesses parse params (HttpResponse True status (JsonData data)) s0))
        = response_page data"
    by (rule fetchBusinesses_replace)
next
  assume a: "js_get params ''offset'' = JNum (Fin r) \<and> 0 < r"
  then show app: "businesses (fst (fetchBusinesses parse params (HttpResponse True status (JsonData data)) s0))
        = businesses s0 @ response_page data"
    by (simp add: fetchBusinesses_append)
  assume b: "distinct (map business_id results) \<and> businesses s0 = take n results \<and>
       response_page data = take limit (drop n results)"
  have tk: "take n results @ take limit (drop n results) = take (n + limit) results"
    by (simp add: take_add)
  show "businesses (fst (fetchBusinesses parse params (HttpResponse True status (JsonData data)) s0))
           = take (n + limit) results"
    using app b tk by simp
  then show "distinct (map business_id
           (businesses (fst (fetchBusinesses parse params (HttpResponse True status (JsonData data)) s0))))"
    using b by (simp add: take_map [symmetric])
qed

theorem fetchBusinesses_success_result_set_witness:
  "businesses (fst (fetchBusinesses (\<lambda>t. NaN)
      [(''category'', JStr ''grocery''), (''limit'', JNum (Fin 50))]
      (HttpResponse True 200 (JsonData
         \<lparr>data_businesses = Some [\<lparr>business_id = 1, business_name = ''Lidl'',
              formatted_address = ''Valletta'', latitude = JNum (Fin 35), longitude = JNum (Fin 14)\<rparr>],
          data_total = Some 2, data_has_more = Some True\<rparr>))
      \<lparr>loading = False, error = None, total = 0, hasMore = False, businesses = [], categories = []\<rparr>))
   = [\<lparr>business_id = 1, business_name = ''Lidl'', formatted_address = ''Valletta'',
        latitude = JNum (Fin 35), longitude = JNum (Fin 14)\<rparr>] \<and>
   businesses (fst (fetchBusinesses (\<lambda>t. NaN)
      [(''category'', JStr ''grocery''), (''offset'', JNum (Fin 1)), (''limit'', JNum (Fin 50))]
      (HttpResponse True 200 (JsonData
         \<lparr>data_businesses = Some [\<lparr>business_id = 2, business_name = ''Spar'',
              formatted_address = ''Sliema'', latitude = JNum (Fin 35), longitude = JNum (Fin 14)\<rparr>],
          data_total = Some 2, data_has_more = Some False\<rparr>))
      \<lparr>loading = False, error = None, total = 2, hasMore = True,
       businesses = [\<lparr>business_id = 1, business_name = ''Lidl'', formatted_address = ''Valletta'',
                      latitude = JNum (Fin 35), longitude = JNum (Fin 14)\<rparr>],
       categories = []\<rparr>))
   = [\<lparr>business_id = 1, business_name = ''Lidl'', formatted_address = ''Valletta'',
        latitude = JNum (Fin 35), longitude = JNum (Fin 14)\<rparr>,
      \<lparr>business_id = 2, business_name = ''Spar'', formatted_address = ''Sliema'',
        latitude = JNum (Fin 35), longitude = JNum (Fin 14)\<rparr>] \<and>
   distinct (map business_id (businesses (fst (fetchBusinesses (\<lambda>t. NaN)
      [(''category'', JStr ''grocery''), (''offset'', JNum (Fin 1)), (''limit'', JNum (Fin 50))]
      (HttpResponse True 200 (JsonData
         \<lparr>data_businesses = Some [\<lparr>business_id = 2, business_name = ''Spar'',
              formatted_address = ''Sliema'', latitude = JNum (Fin 35), longitude = JNum (Fin 14)\<rparr>],
          data_total = Some 2, data_has_more = Some False\<rparr>))
      \<lparr>loading = False, error = None, total = 2, hasMore = True,
       businesses = [\<lparr>business_id = 1, business_name = ''Lidl'', formatted_address = ''Valletta'',
                      latitude = JNum (Fin 35), longitude = JNum (Fin 14)\<rparr>],
       categories = []\<rparr>))))"
  using
    fetchBusinesses_success_result_set
      [where params = "[(''category'', JStr ''grocery''), (''limit'', JNum (Fin 50))]"
         and parse = "\<lambda>t. NaN" and status = 200
         and data = "\<lparr>data_businesses = Some [\<lparr>business_id = 1, business_name = ''Lidl'',
              formatted_address = ''Valletta'', latitude = JNum (Fin 35), longitude = JNum (Fin 14)\<rparr>],
            data_total = Some 2, data_has_more = Some True\<rparr>"
         and ?s0.0 = "\<lparr>loading = False, error = None, total = 0, hasMore = False,
            businesses = [], categories = []\<rparr>"]
    fetchBusinesses_success_result_set
      [where params = "[(''category'', JStr ''grocery''), (''offset'', JNum (Fin 1)),
                        (''limit'', JNum (Fin 50))]"
         and parse = "\<lambda>t. NaN" and status = 200 and r = 1 and n = "Suc 0" and limit = 50
         and results = "[\<lparr>business_id = 1, business_name = ''Lidl'', formatted_address = ''Valletta'',
              latitude = JNum (Fin 35), longitude = JNum (Fin 14)\<rparr>,
            \<lparr>business_id = 2, business_name = ''Spar'', formatted_address = ''Sliema'',
              latitude = JNum (Fin 35), longitude = JNum (Fin 14)\<rparr>]"
         and data = "\<lparr>data_businesses = Some [\<lparr>business_id = 2, business_name = ''Spar'',
              formatted_address = ''Sliema'', latitude = JNum (Fin 35), longitude = JNum (Fin 14)\<rparr>],
            data_total = Some 2, data_has_more = Some False\<rparr>"
         and ?s0.0 = "\<lparr>loading = False, error = None, total = 2, hasMore = True,
            businesses = [\<lparr>business_id = 1, business_name = ''Lidl'', formatted_address = ''Valletta'',
                      latitude = JNum (Fin 35), longitude = JNum (Fin 14)\<rparr>],
            categories = []\<rparr>"]
  by (simp add: js_get_def response_page_def)

subsection \<open>The loading protocol\<close>

lemma fetchBusinesses_ends_as_run:
  "fst (fetchBusinesses parse params outcome s0) = snd (fetchBusinesses_run parse params outcome s0)"
  by (simp add: fetchBusinesses_def fetchBusinesses_run_def fetchBusinesses_begin_def Let_def
      split: attempt.split prod.split)

lemma fetchBusinesses_run_protocol:
  "loading (fst (fetchBusinesses_run parse params outcome s0)) \<and>
   error (fst (fetchBusinesses_run parse params outcome s0)) = None \<and>
   \<not> loading (snd (fetchBusinesses_run parse params outcome s0))"
  by (simp add: fetchBusinesses_run_def Let_def split: attempt.split prod.split)

lemma fetchBusinesses_success_clears_error:
  "error (fst (fetchBusinesses parse params (HttpResponse True status (JsonData data)) s0)) = None"
  by (simp add: fetchBusinesses_def fetchBusinesses_try_success fetchBusinesses_begin_def Let_def)

text \<open>
  C6, as stated, fails: \<open>fetchCategories\<close> issues its request without setting \<open>loading\<close>;
  called in a state that is not loading, it sends its request in a state that is not
  loading.
\<close>

theorem fetchCategories_request_not_loading:
  "\<not> loading (fst (fetchCategories_run (FetchRejected ''Failed to fetch'')
      \<lparr>loading = False, error = None, total = 0, hasMore = False,
       businesses = [], categories = []\<rparr>))"
  by (simp add: fetchCategories_run_def)

text \<open>
  C6, amended. Each operation that fetches a result set (\<open>fetchStores\<close>, \<open>searchStores\<close>,
  \<open>getNearbyStores\<close>, \<open>fetchBusinesses\<close>, \<open>searchBusinesses\<close>, \<open>getNearbyBusinesses\<close>) issues
  its request in a state with \<open>loading = true\<close> and \<open>error = null\<close> and ends in a state with
  \<open>loading = false\<close>, whatever the state it starts in and whatever the outcome; after a
  success its error is null whatever error was held before. \<open>fetchCategories\<close> and
  \<open>refreshBusinesses\<close> issue their request with \<open>error = null\<close> and with \<open>loading\<close> as it
  was, and end with \<open>loading\<close> as it was; \<open>getBusinessStats\<close> changes no state.
\<close>

theorem fetch_operations_protocol:
  "(loading (fst (fetchStores_run o1 s)) \<and> error (fst (fetchStores_run o1 s)) = None \<and>
    \<not> loading (snd (fetchStores_run o1 s)) \<and> fetchStores o1 s = snd (fetchStores_run o1 s) \<and>
    error (fetchStores (ApiResolved r1) s) = None) \<and>
   (loading (fst (searchStores_run o1 s)) \<and> error (fst (searchStores_run o1 s)) = None \<and>
    \<not> loading (snd (searchStores_run o1 s)) \<and> searchStores o1 s = snd (searchStores_run o1 s) \<and>
    error (searchStores (ApiResolved r1) s) = None) \<and>
   (loading (fst (getNearbyStores_run o2 s)) \<and> error (fst (getNearbyStores_run o2 s)) = None \<and>
    \<not> loading (snd (getNearbyStores_run o2 s)) \<and>
    getNearbyStores o2 s = snd (getNearbyStores_run o2 s) \<and>
    error (getNearbyStores (ApiResolved r2) s) = None) \<and>
   (loading (fst (fetchBusinesses_run parse params o3 b)) \<and>
    error (fst (fetchBusinesses_run parse params o3 b)) = None \<and>
    \<not> loading (snd (fetchBusinesses_run parse params o3 b)) \<and>
    fst (fetchBusinesses parse params o3 b) = snd (fetchBusinesses_run parse params o3 b) \<and>
    error (fst (fetchBusinesses parse params (HttpResponse True st (JsonData d)) b)) = None) \<and>
   (loading (fst (searchBusinesses_run parse params o3 b)) \<and>
    error (fst (searchBusinesses_run parse params o3 b)) = None \<and>
    \<not> loading (snd (searchBusinesses_run parse params o3 b)) \<and>
    fst (searchBusinesses parse params o3 b) = snd (searchBusinesses_run parse params o3 b) \<and>
    error (fst (searchBusinesses parse params (HttpResponse True st (JsonData d)) b)) = None) \<and>
   (loading (fst (getNearbyBusinesses_run parse v1 v2 v3 v4 o3 b)) \<and>
    error (fst (getNearbyBusinesses_run parse v1 v2 v3 v4 o3 b)) = None \<and>
    \<not> loading (snd (getNearbyBusinesses_run parse v1 v2 v3 v4 o3 b)) \<and>
    fst (getNearbyBusinesses parse v1 v2 v3 v4 o3 b) =
      snd (getNearbyBusinesses_run parse v1 v2 v3 v4 o3 b) \<and>
    error (fst (getNearbyBusinesses parse v1 v2 v3 v4 (HttpResponse True st (JsonData d)) b)) = None) \<and>
   (error (fst (fetchCategories_run o5 b)) = None \<and>
    loading (fst (fetchCategories_run o5 b)) = loading b \<and>
    loading (snd (fetchCategories_run o5 b)) = loading b \<and>
    fetchCategories o5 b = snd (fetchCategories_run o5 b)) \<and>
   (error (fst (refreshBusinesses_run o6 b)) = None \<and>
    loading (fst (refreshBusinesses_run o6 b)) = loading b \<and>
    loading (fst (snd (refreshBusinesses_run o6 b))) = loading b \<and>
    refreshBusinesses o6 b = snd (refreshBusinesses_run o6 b)) \<and>
   (fst (getBusinessStats_run o7 b) = b \<and>
    fst (snd (getBusinessStats_run o7 b)) = b \<and>
    getBusinessStats o7 b = snd (getBusinessStats_run o7 b))"
proof (intro conjI)
  show "loading (fst (fetchStores_run o1 s))" "error (fst (fetchStores_run o1 s)) = None"
    "\<not> loading (snd (fetchStores_run o1 s))" "fetchStores o1 s = snd (fetchStores_run o1 s)"
    "error (fetchStores (ApiResolved r1) s) = None"
    by (simp_all add: fetchStores_def fetchStores_run_def Let_def)
  show "loading (fst (searchStores_run o1 s))" "error (fst (searchStores_run o1 s)) = None"
    "\<not> loading (snd (searchStores_run o1 s))" "searchStores o1 s = snd (searchStores_run o1 s)"
    "error (searchStores (ApiResolved r1) s) = None"
    by (simp_all add: searchStores_def searchStores_run_def Let_def)
  show "loading (fst (getNearbyStores_run o2 s))" "error (fst (getNearbyStores_run o2 s)) = None"
    "\<not> loading (snd (getNearbyStores_run o2 s))"
    "getNearbyStores o2 s = snd (getNearbyStores_run o2 s)"
    "error (getNearbyStores (ApiResolved r2) s) = None"
    by (simp_all add: getNearbyStores_def getNearbyStores_run_def Let_def)
  show "loading (fst (fetchBusinesses_run parse params o3 b))"
    "error (fst (fetchBusinesses_run parse params o3 b)) = None"
    "\<not> loading (snd (fetchBusinesses_run parse params o3 b))"
    using fetchBusinesses_run_protocol [of parse params o3 b] by simp_all
  show "fst (fetchBusinesses parse params o3 b) = snd (fetchBusinesses_run parse params o3 b)"
    by (rule fetchBusinesses_ends_as_run)
  show "error (fst (fetchBusinesses parse params (HttpResponse True st (JsonData d)) b)) = None"
    by (rule fetchBusinesses_success_clears_error)
  show "loading (fst (searchBusinesses_run parse params o3 b))"
    "error (fst (searchBusinesses_run parse params o3 b)) = None"
    "\<not> loading (snd (searchBusinesses_run parse params o3 b))"
    by (simp_all add: searchBusinesses_run_def fetchBusinesses_run_protocol)
  show "fst (searchBusinesses parse params o3 b) = snd (searchBusinesses_run parse params o3 b)"
    by (simp add: searchBusinesses_def searchBusinesses_run_def fetchBusinesses_ends_as_run)
  show "error (fst (searchBusinesses parse params (HttpResponse True st (JsonData d)) b)) = None"
    by (simp add: searchBusinesses_def fetchBusinesses_success_clears_error)
  show "loading (fst (getNearbyBusinesses_run parse v1 v2 v3 v4 o3 b))"
    "error (fst (getNearbyBusinesses_run parse v1 v2 v3 v4 o3 b)) = None"
    "\<not> loading (snd (getNearbyBusinesses_run parse v1 v2 v3 v4 o3 b))"
    by (simp_all add: getNearbyBusinesses_run_def fetchBusinesses_run_protocol)
  show "fst (getNearbyBusinesses parse v1 v2 v3 v4 o3 b) =
      snd (getNearbyBusinesses_run parse v1 v2 v3 v4 o3 b)"
    by (simp add: getNearbyBusinesses_def getNearbyBusinesses_run_def fetchBusinesses_ends_as_run)
  show "error (fst (getNearbyBusinesses parse v1 v2 v3 v4 (HttpResponse True st (JsonData d)) b)) = None"
    by (simp add: getNearbyBusinesses_def fetchBusinesses_success_clears_error)
  show "error (fst (fetchCategories_run o5 b)) = None"
    "loading (fst (fetchCategories_run o5 b)) = loading b"
    "loading (snd (fetchCategories_run o5 b)) = loading b"
    "fetchCategories o5 b = snd (fetchCategories_run o5 b)"
    by (simp_all add: fetchCategories_def fetchCategories_run_def Let_def
        split: fetch_outcome.split json_outcome.split)
  show "error (fst (refreshBusinesses_run o6 b)) = None"
    "loading (fst (refreshBusinesses_run o6 b)) = loading b"
    "loading (fst (snd (refreshBusinesses_run o6 b))) = loading b"
    "refreshBusinesses o6 b = snd (refreshBusinesses_run o6 b)"
    by (simp_all add: refreshBusinesses_def refreshBusinesses_run_def Let_def
        split: fetch_outcome.split json_outcome.split)
  show "fst (getBusinessStats_run o7 b) = b"
    "fst (snd (getBusinessStats_run o7 b)) = b"
    "getBusinessStats o7 b = snd (getBusinessStats_run o7 b)"
    by (simp_all add: getBusinessStats_def getBusinessStats_run_def
        split: fetch_outcome.split json_outcome.split)
qed

section \<open>Properties of the request parameters\<close>

lemma append_param_sent:
  assumes "append_param parse q e = Some q'" and "(k, t) \<in> set q'"
  shows "(k, t) \<in> set q \<or> (k = fst e \<and> sent_value_of parse k (snd e) t)"
proof (cases "fst e = ''latitude'' \<or> fst e = ''longitude''")
  case True
  with assms show ?thesis
    by (cases "snd e")
       (auto simp: append_param_def Let_def sent_value_of_def parseFloat_def isNaN_def
             split: if_splits)
next
  case False
  with assms show ?thesis
    by (cases "snd e")
       (auto simp: append_param_def Let_def sent_value_of_def split: if_splits)
qed

lemma forEach_params_sent:
  assumes "forEach_params parse es q = Some q'" and "(k, t) \<in> set q'"
  shows "(k, t) \<in> set q \<or> (\<exists>v. (k, v) \<in> set es \<and> sent_value_of parse k v t)"
  using assms
proof (induction es arbitrary: q)
  case Nil
  then show ?case by simp
next
  case (Cons e es)
  from Cons.prems(1) obtain q1 where
    q1: "append_param parse q e = Some q1" and rest: "forEach_params parse es q1 = Some q'"
    by (auto split: option.splits)
  from Cons.IH [OF rest Cons.prems(2)]
  consider "(k, t) \<in> set q1" | "\<exists>v. (k, v) \<in> set es \<and> sent_value_of parse k v t"
    by blast
  then show ?case
  proof cases
    case 1
    from append_param_sent [OF q1 1] show ?thesis
      by (cases e) auto
  next
    case 2
    then show ?thesis by auto
  qed
qed

lemma queryParams_sent:
  assumes "queryParams parse params = Some q" and "(k, t) \<in> set q"
  shows "\<exists>v. (k, v) \<in> set params \<and> sent_value_of parse k v t"
  using forEach_params_sent [of parse params "[]" q k t] assms
  by (simp add: queryParams_def)

lemma searchParams_values:
  assumes "(k, v) \<in> set (searchParams parse parseInt f)"
  shows "v \<noteq> JUndefined \<and> v \<noteq> JNull \<and> v \<noteq> JStr []"
  using assms
  by (auto simp: searchParams_def delete_undefined_def split: if_splits)

text \<open>
  C5. Building the query of a request never throws, and every parameter sent comes from a
  field whose value is not undefined, null or the empty string, is sent with a text that
  is not empty, and under latitude and longitude is the number the value parses to, which
  is not NaN. Hence a field whose value is undefined, null or the empty string is not
  sent. The search parameters that \<open>SearchFilters\<close> hands over hold no undefined, null or
  empty-string value either.
\<close>

theorem request_parameters_omit_empty:
  "(\<exists>q. queryParams parse params = Some q) \<and>
   (\<forall>q k t. queryParams parse params = Some q \<longrightarrow> (k, t) \<in> set q \<longrightarrow>
      (\<exists>v. (k, v) \<in> set params \<and> sent_value_of parse k v t)) \<and>
   (\<forall>q k v. queryParams parse params = Some q \<longrightarrow> distinct (map fst params) \<longrightarrow>
      (k, v) \<in> set params \<longrightarrow> v = JUndefined \<or> v = JNull \<or> v = JStr [] \<longrightarrow>
      k \<notin> fst ` set q) \<and>
   (\<forall>k v. (k, v) \<in> set (searchParams parse parseInt f) \<longrightarrow>
      v \<noteq> JUndefined \<and> v \<noteq> JNull \<and> v \<noteq> JStr [])"
proof (intro conjI allI impI)
  show "\<exists>q. queryParams parse params = Some q"
    by (rule queryParams_total)
next
  fix q k t
  assume "queryParams parse params = Some q" and "(k, t) \<in> set q"
  then show "\<exists>v. (k, v) \<in> set params \<and> sent_value_of parse k v t"
    by (rule queryParams_sent)
next
  fix q k v
  assume q: "queryParams parse params = Some q" and d: "distinct (map fst params)"
    and kv: "(k, v) \<in> set params" and empty: "v = JUndefined \<or> v = JNull \<or> v = JStr []"
  show "k \<notin> fst ` set q"
  proof
    assume "k \<in> fst ` set q"
    then obtain t where "(k, t) \<in> set q" by auto
    from queryParams_sent [OF q this] obtain v' where
      v': "(k, v') \<in> set params" and ok: "sent_value_of parse k v' t"
      by blast
    from d kv v' have "v' = v"
      by (meson eq_key_imp_eq_value)
    with ok empty show False
      by (auto simp: sent_value_of_def)
  qed
next
  fix k v
  assume a: "(k, v) \<in> set (searchParams parse parseInt f)"
  from searchParams_values [OF a]
  show "v \<noteq> JUndefined" and "v \<noteq> JNull" and "v \<noteq> JStr []"
    by simp_all
qed

theorem request_parameters_omit_empty_witness:
  "queryParams (\<lambda>t. NaN)
     [(''query'', JStr ''''), (''category'', JStr ''grocery''), (''min_rating'', JNull),
      (''max_price_level'', JUndefined), (''latitude'', JStr ''abc''),
      (''longitude'', JNum (Fin 14)), (''limit'', JNum (Fin 50))]
   = Some [(''category'', SentStr ''grocery''), (''longitude'', SentNum (Fin 14)),
           (''limit'', SentNum (Fin 50))] \<and>
   sent_value_of (\<lambda>t. NaN) ''category'' (JStr ''grocery'') (SentStr ''grocery'') \<and>
   ''query'' \<notin> fst ` set [(''category'', SentStr ''grocery''), (''longitude'', SentNum (Fin 14)),
           (''limit'', SentNum (Fin 50))] \<and>
   searchParams (\<lambda>t. NaN) (\<lambda>t. Fin 5000)
     \<lparr>query = '''', category = ''grocery'', min_rating = '''', max_price_level = '''',
      radius = ''5000'', exclude_closed = True\<rparr>
   = [(''category'', JStr ''grocery''), (''radius'', JNum (Fin 5))]"
  using request_parameters_omit_empty
      [where parse = "\<lambda>t. NaN" and parseInt = "\<lambda>t. Fin 5000"
         and params = "[(''query'', JStr ''''), (''category'', JStr ''grocery''),
            (''min_rating'', JNull), (''max_price_level'', JUndefined),
            (''latitude'', JStr ''abc''), (''longitude'', JNum (Fin 14)),
            (''limit'', JNum (Fin 50))]"
         and f = "\<lparr>query = '''', category = ''grocery'', min_rating = '''',
            max_price_level = '''', radius = ''5000'', exclude_closed = True\<rparr>"]
  by (simp add: queryParams_def append_param_def parseFloat_def isNaN_def Let_def
      sent_value_of_def searchParams_def delete_undefined_def)

section \<open>Properties of the list views\<close>

text \<open>
  C4, as stated, fails: a render with businesses, no error and no loading is the populated
  list, which is none of the three degraded states.
\<close>

theorem list_view_populated_state:
  "\<not> is_degraded (BusinessList
      [\<lparr>business_id = 1, business_name = ''Lidl'', formatted_address = ''Valletta'',
        latitude = JNum (Fin 35), longitude = JNum (Fin 14)\<rparr>] False None) \<and>
   \<not> is_degraded (StoreList
      [\<lparr>business_id = 1, business_name = ''Lidl'', formatted_address = ''Valletta'',
        latitude = JNum (Fin 35), longitude = JNum (Fin 14)\<rparr>] False None)"
  by (simp add: is_degraded_def BusinessList_def StoreList_def truthy_error_def)

text \<open>
  C4, amended. A render with an empty result set is exactly one of the three degraded
  states: in \<open>BusinessList\<close> loading when the loading flag is set, else the error state
  when an error is set, else the no-results state; in \<open>StoreList\<close> the error state comes
  first. The no-results state is rendered exactly when the result set is empty, nothing
  is loading and no error is set. A render with a non-empty result set is the error state
  when an error is set, and the populated list otherwise.
\<close>

theorem list_view_states:
  "BusinessList [] l e =
     (if l then LoadingState
      else case truthy_error e of Some m \<Rightarrow> ErrorState m | None \<Rightarrow> EmptyState) \<and>
   StoreList [] l e =
     (case truthy_error e of
        Some m \<Rightarrow> ErrorState m
      | None \<Rightarrow> if l then LoadingState else EmptyState) \<and>
   is_degraded (BusinessList [] l e) \<and>
   is_degraded (StoreList [] l e) \<and>
   (BusinessList bs l e = EmptyState) = (bs = [] \<and> \<not> l \<and> truthy_error e = None) \<and>
   (StoreList bs l e = EmptyState) = (bs = [] \<and> \<not> l \<and> truthy_error e = None) \<and>
   BusinessList (b # bs) l e =
     (case truthy_error e of Some m \<Rightarrow> ErrorState m | None \<Rightarrow> ListView (b # bs)) \<and>
   StoreList (b # bs) l e =
     (case truthy_error e of Some m \<Rightarrow> ErrorState m | None \<Rightarrow> ListView (b # bs))"
  by (auto simp: BusinessList_def StoreList_def is_degraded_def split: option.splits)

section \<open>Properties of the geolocation operation\<close>

text \<open>
  C9. In both implementations two platform error codes get the same message exactly when
  they are of the same failure kind, so the four kinds have four pairwise distinct
  messages; no message mentions a generic "failed"; and the hook stores the message of
  the failure in its error state.
\<close>

theorem geolocation_failures_distinct_messages:
  "(geolocation_error_message c = geolocation_error_message c') = (failure_kind c = failure_kind c') \<and>
   (googleMaps_error_message c = googleMaps_error_message c') = (failure_kind c = failure_kind c') \<and>
   \<not> mentions_failed (geolocation_error_message c) \<and>
   \<not> mentions_failed (googleMaps_error_message c) \<and>
   error (getCurrentLocation (PositionError c) s) = Some (geolocation_error_message c) \<and>
   error (service_getCurrentLocation (PositionError c) s) = Some (googleMaps_error_message c)"
  by (simp add: geolocation_error_message_def googleMaps_error_message_def failure_kind_def
      PERMISSION_DENIED_def POSITION_UNAVAILABLE_def TIMEOUT_def mentions_failed_def
      getCurrentLocation_def service_getCurrentLocation_def googleMaps_getCurrentLocation_def
      geolocation_begin_def Let_def)

section \<open>Properties of the Near Me handler\<close>

lemma queryParams_nearby:
  "queryParams parse (nearby_params (JNum (Fin la)) (JNum (Fin lo)) (JNum r) (JStr c)) =
     Some ([(''latitude'', SentNum (Fin la)), (''longitude'', SentNum (Fin lo)),
            (''radius'', SentNum r), (''limit'', SentNum (Fin 100)),
            (''offset'', SentNum (Fin 0))] @
           (if c = [] then [] else [(''category'', SentStr c)]))"
  by (simp add: nearby_params_def queryParams_def append_param_def parseFloat_def isNaN_def
      js_set_def Let_def)

text \<open>
  C10. \<open>handleLocationSearch\<close> decides on the location held when it is invoked, not on
  the position the geolocation request produces. Invoked with no location held, and the
  geolocation request succeeding with position \<open>p\<close>, it sends no request, leaves the
  businesses and the map centre and zoom as they were, and only stores \<open>p\<close>. Invoked with
  a location \<open>u\<close> held, it sends one nearby request for the coordinates of \<open>u\<close> and
  centres the map on \<open>u\<close>, whatever the geolocation request gives.
\<close>

theorem handleLocationSearch_reads_held_location:
  "(location (geo s) = None \<longrightarrow>
      snd (handleLocationSearch parse rad (GotPosition p) outcome s) = [] \<and>
      biz (fst (handleLocationSearch parse rad (GotPosition p) outcome s)) = biz s \<and>
      mapCenter (fst (handleLocationSearch parse rad (GotPosition p) outcome s)) = mapCenter s \<and>
      mapZoom (fst (handleLocationSearch parse rad (GotPosition p) outcome s)) = mapZoom s \<and>
      location (geo (fst (handleLocationSearch parse rad (GotPosition p) outcome s))) = Some p \<and>
      error (geo (fst (handleLocationSearch parse rad (GotPosition p) outcome s))) = None) \<and>
   (location (geo s) = Some u \<longrightarrow>
      snd (handleLocationSearch parse rad geoOutcome outcome s) =
        [[(''latitude'', SentNum (Fin (lat u))), (''longitude'', SentNum (Fin (lng u))),
          (''radius'', SentNum (js_div_by rad 1000)), (''limit'', SentNum (Fin 100)),
          (''offset'', SentNum (Fin 0))] @
         (if activeCategory s = [] then [] else [(''category'', SentStr (activeCategory s))])] \<and>
      mapCenter (fst (handleLocationSearch parse rad geoOutcome outcome s)) = (lat u, lng u) \<and>
      mapZoom (fst (handleLocationSearch parse rad geoOutcome outcome s)) = 14)"
  by (simp add: handleLocationSearch_def getCurrentLocation_def geolocation_begin_def
      getNearbyBusinesses_def queryParams_nearby Let_def)

theorem handleLocationSearch_reads_held_location_witness:
  "snd (handleLocationSearch (\<lambda>t. NaN) (Fin 5000)
        (GotPosition \<lparr>lat = 36, lng = 15, accuracy = 5\<rparr>) (FetchRejected ''Failed to fetch'')
        \<lparr>biz = \<lparr>loading = False, error = None, total = 0, hasMore = False,
                businesses = [], categories = []\<rparr>,
         geo = \<lparr>loading = False, error = None, location = None\<rparr>,
         mapCenter = (35.8989, 14.5146), mapZoom = 12, activeCategory = ''grocery''\<rparr>) = [] \<and>
   location (geo (fst (handleLocationSearch (\<lambda>t. NaN) (Fin 5000)
        (GotPosition \<lparr>lat = 36, lng = 15, accuracy = 5\<rparr>) (FetchRejected ''Failed to fetch'')
        \<lparr>biz = \<lparr>loading = False, error = None, total = 0, hasMore = False,
                businesses = [], categories = []\<rparr>,
         geo = \<lparr>loading = False, error = None, location = None\<rparr>,
         mapCenter = (35.8989, 14.5146), mapZoom = 12, activeCategory = ''grocery''\<rparr>))) = Some \<lparr>lat = 36, lng = 15, accuracy = 5\<rparr> \<and>
   mapCenter (fst (handleLocationSearch (\<lambda>t. NaN) (Fin 5000)
        (GotPosition \<lparr>lat = 36, lng = 15, accuracy = 5\<rparr>) (FetchRejected ''Failed to fetch'')
        \<lparr>biz = \<lparr>loading = False, error = None, total = 0, hasMore = False,
                businesses = [], categories = []\<rparr>,
         geo = \<lparr>loading = False, error = None, location = None\<rparr>,
         mapCenter = (35.8989, 14.5146), mapZoom = 12, activeCategory = ''grocery''\<rparr>)) = (35.8989, 14.5146) \<and>
   snd (handleLocationSearch (\<lambda>t. NaN) (Fin 5000)
        (GotPosition \<lparr>lat = 36, lng = 15, accuracy = 5\<rparr>) (FetchRejected ''Failed to fetch'')
        \<lparr>biz = \<lparr>loading = False, error = None, total = 0, hasMore = False,
                businesses = [], categories = []\<rparr>,
         geo = \<lparr>loading = False, error = None,
                location = Some \<lparr>lat = 35, lng = 14, accuracy = 10\<rparr>\<rparr>,
         mapCenter = (35.8989, 14.5146), mapZoom = 12, activeCategory = ''grocery''\<rparr>) =
     [[(''latitude'', SentNum (Fin 35)), (''longitude'', SentNum (Fin 14)),
       (''radius'', SentNum (Fin 5)), (''limit'', SentNum (Fin 100)),
       (''offset'', SentNum (Fin 0)), (''category'', SentStr ''grocery'')]] \<and>
   mapCenter (fst (handleLocationSearch (\<lambda>t. NaN) (Fin 5000)
        (GotPosition \<lparr>lat = 36, lng = 15, accuracy = 5\<rparr>) (FetchRejected ''Failed to fetch'')
        \<lparr>biz = \<lparr>loading = False, error = None, total = 0, hasMore = False,
                businesses = [], categories = []\<rparr>,
         geo = \<lparr>loading = False, error = None,
                location = Some \<lparr>lat = 35, lng = 14, accuracy = 10\<rparr>\<rparr>,
         mapCenter = (35.8989, 14.5146), mapZoom = 12, activeCategory = ''grocery''\<rparr>)) = (35, 14)"
  using
    handleLocationSearch_reads_held_location
      [where parse = "\<lambda>t. NaN" and rad = "Fin 5000" and p = "\<lparr>lat = 36, lng = 15, accuracy = 5\<rparr>"
         and outcome = "FetchRejected ''Failed to fetch''"
         and s = "\<lparr>biz = \<lparr>loading = False, error = None, total = 0, hasMore = False,
                businesses = [], categories = []\<rparr>,
         geo = \<lparr>loading = False, error = None, location = None\<rparr>,
         mapCenter = (35.8989, 14.5146), mapZoom = 12, activeCategory = ''grocery''\<rparr>"]
    handleLocationSearch_reads_held_location
      [where parse = "\<lambda>t. NaN" and rad = "Fin 5000"
         and geoOutcome = "GotPosition \<lparr>lat = 36, lng = 15, accuracy = 5\<rparr>"
         and u = "\<lparr>lat = 35, lng = 14, accuracy = 10\<rparr>"
         and outcome = "FetchRejected ''Failed to fetch''"
         and s = "\<lparr>biz = \<lparr>loading = False, error = None, total = 0, hasMore = False,
                businesses = [], categories = []\<rparr>,
         geo = \<lparr>loading = False, error = None,
                location = Some \<lparr>lat = 35, lng = 14, accuracy = 10\<rparr>\<rparr>,
         mapCenter = (35.8989, 14.5146), mapZoom = 12, activeCategory = ''grocery''\<rparr>"]
  by simp

end
